theory Spec2Isabelle
  imports Complex_Main "HOL-Library.List_Lexorder"
begin

section \<open>Python strings\<close>

text \<open>
  A Python \<^verbatim>\<open>str\<close> is a sequence of Unicode code points.  It is modelled as the list of
  its code points, so that \<^verbatim>\<open>strip\<close>, \<^verbatim>\<open>split\<close>, \<^verbatim>\<open>in\<close> and the comparison used by
  \<^verbatim>\<open>sorted\<close> (lexicographic by code point, a proper prefix first) are the ones of Python.
  ASCII literals of the source are written \<open>pystr ''...''\<close>.
\<close>

type_synonym ustring = "nat list"

definition ch :: "char \<Rightarrow> nat" where
  "ch c = of_char c"

definition pystr :: "string \<Rightarrow> ustring" where
  "pystr s = map ch s"

text \<open>
  The characters \<^verbatim>\<open>str.strip()\<close> removes: U+0009..U+000D, U+001C..U+0020, U+0085, U+00A0,
  U+1680, U+2000..U+200A, U+2028, U+2029, U+202F, U+205F and U+3000.
\<close>

definition py_isspace :: "nat \<Rightarrow> bool" where
  "py_isspace c \<longleftrightarrow>
     (9 \<le> c \<and> c \<le> 13) \<or> (28 \<le> c \<and> c \<le> 32) \<or> c = 133 \<or> c = 160 \<or> c = 5760 \<or>
     (8192 \<le> c \<and> c \<le> 8202) \<or> c = 8232 \<or> c = 8233 \<or> c = 8239 \<or> c = 8287 \<or> c = 12288"

definition strip :: "ustring \<Rightarrow> ustring" where
  "strip s = rev (dropWhile py_isspace (rev (dropWhile py_isspace s)))"

text \<open>\<^verbatim>\<open>s.split(sep)\<close> for a separator of one character: never the empty list.\<close>

fun py_split :: "nat \<Rightarrow> ustring \<Rightarrow> ustring list" where
  "py_split sep [] = [[]]"
| "py_split sep (c # cs) =
     (if c = sep then [] # py_split sep cs
      else (case py_split sep cs of
              [] \<Rightarrow> [[c]]
            | p # ps \<Rightarrow> (c # p) # ps))"

text \<open>\<^verbatim>\<open>sep.join(parts)\<close>.\<close>

fun py_join :: "ustring \<Rightarrow> ustring list \<Rightarrow> ustring" where
  "py_join sep [] = []"
| "py_join sep [p] = p"
| "py_join sep (p # q # ps) = p @ sep @ py_join sep (q # ps)"

text \<open>\<^verbatim>\<open>str(n)\<close> for a non-negative integer, as the f-string \<^verbatim>\<open>{i+1}\<close> prints it.\<close>

fun str_nat :: "nat \<Rightarrow> ustring" where
  "str_nat n = (if n < 10 then [48 + n] else str_nat (n div 10) @ [48 + n mod 10])"

section \<open>Calls that do not return a value\<close>

text \<open>
  A call on a library returns a value, raises an exception, or never returns.  The handlers
  of the program tell three classes of exception apart: \<^verbatim>\<open>TypeError\<close> (caught in
  \<^verbatim>\<open>plot_graph\<close>), the other instances of \<^verbatim>\<open>Exception\<close> (caught, with
  \<^verbatim>\<open>TypeError\<close>, by the two \<^verbatim>\<open>except Exception\<close>), and the instances of
  \<^verbatim>\<open>BaseException\<close> that are not instances of \<^verbatim>\<open>Exception\<close> (\<^verbatim>\<open>SystemExit\<close>,
  \<^verbatim>\<open>KeyboardInterrupt\<close>, \<^verbatim>\<open>GeneratorExit\<close>), which no handler of the program catches.
  An exception carries the text \<^verbatim>\<open>str(e)\<close> that \<^verbatim>\<open>f"{e}"\<close> prints.  \<open>NoReturn\<close> is the
  call that never returns: like an exception nobody catches, it ends the run of every
  caller, which then does not return either.
\<close>

datatype abrupt =
    TypeError ustring
  | OtherException ustring
  | BaseException ustring
  | NoReturn

fun is_TypeError :: "abrupt \<Rightarrow> bool" where
  "is_TypeError (TypeError m) = True"
| "is_TypeError (OtherException m) = False"
| "is_TypeError (BaseException m) = False"
| "is_TypeError NoReturn = False"

text \<open>\<^verbatim>\<open>isinstance(e, Exception)\<close>: what \<^verbatim>\<open>except Exception\<close> catches.\<close>

fun is_Exception :: "abrupt \<Rightarrow> bool" where
  "is_Exception (TypeError m) = True"
| "is_Exception (OtherException m) = True"
| "is_Exception (BaseException m) = False"
| "is_Exception NoReturn = False"

fun exn_str :: "abrupt \<Rightarrow> ustring" where
  "exn_str (TypeError m) = m"
| "exn_str (OtherException m) = m"
| "exn_str (BaseException m) = m"
| "exn_str NoReturn = []"

section \<open>The collaborators: SymPy, NumPy and Matplotlib\<close>

text \<open>
  The libraries are not part of the program.  They are a parameter of the model: a record of
  the functions the program calls, each returning its value or the way it ends without one
  (\<^verbatim>\<open>str\<close> alone is taken to return always).
  \<open>'o\<close> is the type of the Python objects the libraries hand back (expressions, tuples,
  compiled functions, arrays).
  \<^item> \<open>sp_solve\<close> is \<^verbatim>\<open>sp.solve(expr, x)\<close> read through \<^verbatim>\<open>enumerate\<close>: the sequence of
    solutions, or the exception of either step;
  \<^item> \<open>sp_lambdify\<close> is \<^verbatim>\<open>sp.lambdify(x_sym, expr, "numpy")\<close> and \<open>call_lambdified\<close>
    the call of its result on the sample array;
  \<^item> \<open>ax_plot\<close> is \<^verbatim>\<open>self.ax.plot(x_vals, y_vals, label=..., ...)\<close>;
  \<^item> \<open>free_symbols\<close> gives the names of \<^verbatim>\<open>expr.free_symbols\<close> (a symbol is identified
    with its name, which is what \<^verbatim>\<open>sorted\<close> compares and what the f-string prints);
  \<^item> \<open>sp_linsolve\<close> is \<^verbatim>\<open>sp.linsolve(equations, *variables)\<close>: the list of the tuples of
    the solution set, empty for the empty set (the only falsy solution set).
\<close>

record 'o engine =
  sp_sympify :: "ustring \<Rightarrow> abrupt + 'o"
  sp_solve :: "'o \<Rightarrow> abrupt + 'o list"
  sp_diff :: "'o \<Rightarrow> abrupt + 'o"
  sp_integrate :: "'o \<Rightarrow> abrupt + 'o"
  py_str :: "'o \<Rightarrow> ustring"
  sp_lambdify :: "'o \<Rightarrow> abrupt + 'o"
  call_lambdified :: "'o \<Rightarrow> rat list \<Rightarrow> abrupt + 'o"
  ax_plot :: "rat list \<Rightarrow> 'o \<Rightarrow> ustring \<Rightarrow> abrupt option"
  free_symbols :: "'o \<Rightarrow> abrupt + ustring list"
  sp_linsolve :: "'o list \<Rightarrow> ustring list \<Rightarrow> abrupt + 'o list list"
  evalf :: "'o \<Rightarrow> abrupt + 'o"

section \<open>np.linspace in double precision\<close>

text \<open>
  A finite double is a rational number, so the samples are modelled as the rationals the
  doubles are.  \<open>round_double\<close> is the rounding of IEEE 754 binary64 arithmetic (53
  significant bits, to nearest, ties to even) for values in the normal range; the values
  of this program lie between 1/32 and 32 in magnitude, or are zero.  \<open>pow2 e\<close> is
  the power of two with the integer exponent \<open>e\<close>, and \<open>binary_exponent q\<close> is the
  exponent of the greatest power of two that is at most the magnitude of \<open>q\<close>.
\<close>

fun log2_nat :: "nat \<Rightarrow> nat" where
  "log2_nat n = (if n < 2 then 0 else 1 + log2_nat (n div 2))"

declare log2_nat.simps [simp del]

definition pow2 :: "int \<Rightarrow> rat" where
  "pow2 e = (if 0 \<le> e then 2 ^ nat e else 1 / 2 ^ nat (- e))"

definition binary_exponent :: "rat \<Rightarrow> int" where
  "binary_exponent q =
     (let a = \<bar>q\<bar>
      in if 1 \<le> a then int (log2_nat (nat \<lfloor>a\<rfloor>))
         else - int (log2_nat (nat (\<lceil>1 / a\<rceil> - 1))) - 1)"

definition round_half_even :: "rat \<Rightarrow> int" where
  "round_half_even x =
     (let f = \<lfloor>x\<rfloor>; r = x - of_int f
      in if r < 1 / 2 then f else if 1 / 2 < r then f + 1 else if even f then f else f + 1)"

definition round_double :: "rat \<Rightarrow> rat" where
  "round_double q =
     (if q = 0 then 0
      else (let u = pow2 (binary_exponent q - 52)
            in of_int (round_half_even (q / u)) * u))"

text \<open>
  \<^verbatim>\<open>np.linspace(start, stop, num)\<close> with the end point included, as NumPy computes it for a
  step that is not zero: \<^verbatim>\<open>step = (stop - start) / (num - 1)\<close>, then
  \<^verbatim>\<open>y = arange(0, num) * step + start\<close>, every operation rounded, and the last sample set
  to \<^verbatim>\<open>stop\<close>.
\<close>

definition linspace :: "rat \<Rightarrow> rat \<Rightarrow> nat \<Rightarrow> rat list" where
  "linspace start stop num =
     (let step = round_double (round_double (stop - start) / of_nat (num - 1));
          y = map (\<lambda>i. round_double (round_double (of_nat i * step) + start)) [0..<num]
      in if num > 1 then y[num - 1 := stop] else y)"

section \<open>The window\<close>

text \<open>
  The state of a \<^verbatim>\<open>MathEquationSolver\<close> widget that \<^verbatim>\<open>solve_equation\<close> reads and writes:
  the selected item of the combo box, the text of the input line, the text of the output
  area, and the calls made so far on the libraries, the axes and the canvas, in order.
\<close>

datatype 'o event =
    Sp_Symbol
  | Sp_sympify ustring
  | Sp_solve 'o
  | Sp_diff 'o
  | Sp_integrate 'o
  | Ax_clear
  | Np_linspace rat rat nat
  | Sp_lambdify 'o
  | Call_lambdified 'o "rat list"
  | Ax_plot "rat list" 'o ustring
  | Ax_decorate
  | Canvas_draw
  | Sp_free_symbols 'o
  | Sp_linsolve "'o list" "ustring list"
  | Sp_evalf 'o

record 'o window =
  equation_type_combo :: ustring
  equation_input :: ustring
  solution_output :: ustring
  calls :: "'o event list"

definition log_call :: "'o event \<Rightarrow> 'o window \<Rightarrow> 'o window" where
  "log_call ev w = w\<lparr>calls := calls w @ [ev]\<rparr>"

definition setText :: "ustring \<Rightarrow> 'o window \<Rightarrow> 'o window" where
  "setText t w = w\<lparr>solution_output := t\<rparr>"

section \<open>format_step_solution\<close>

fun format_loop :: "'o engine \<Rightarrow> nat \<Rightarrow> 'o list \<Rightarrow> ustring \<Rightarrow> ustring" where
  "format_loop E i [] formatted = formatted"
| "format_loop E i (sol # sols) formatted =
     format_loop E (i + 1) sols
       (formatted @ pystr ''x'' @ str_nat (i + 1) @ pystr '' = '' @ py_str E sol @ pystr ''     '')"

definition format_step_solution :: "'o engine \<Rightarrow> 'o list \<Rightarrow> ustring" where
  "format_step_solution E solutions = format_loop E 0 solutions (pystr ''Solutions:'' @ [10])"

section \<open>plot_graph\<close>

definition plot_message :: ustring where
  "plot_message = pystr ''Error: Unable to plot the function. Please enter a valid equation.''"

text \<open>
  The handler of the \<^verbatim>\<open>try\<close> in \<^verbatim>\<open>plot_graph\<close>: a \<^verbatim>\<open>TypeError\<close> is reported in the
  output area and the function returns; anything else leaves the function.
\<close>

fun plot_except :: "abrupt \<Rightarrow> 'o window \<Rightarrow> abrupt option \<times> 'o window" where
  "plot_except (TypeError m) w = (None, setText plot_message w)"
| "plot_except (OtherException m) w = (Some (OtherException m), w)"
| "plot_except (BaseException m) w = (Some (BaseException m), w)"
| "plot_except NoReturn w = (Some NoReturn, w)"

text \<open>
  The result is what leaves \<^verbatim>\<open>plot_graph\<close> instead of a normal return, if anything, and
  the window.
  \<open>Ax_decorate\<close> stands for the two reference lines, the two axis labels, the legend and
  the grid.
\<close>

definition plot_graph :: "'o engine \<Rightarrow> 'o \<Rightarrow> 'o window \<Rightarrow> abrupt option \<times> 'o window" where
  "plot_graph E expr w0 =
     (let w1 = log_call Ax_clear w0;
          x_vals = linspace (- 10) 10 400;
          w2 = log_call Sp_Symbol (log_call (Np_linspace (- 10) 10 400) w1);
          w3 = log_call (Sp_lambdify expr) w2
      in case sp_lambdify E expr of
           Inl ex \<Rightarrow> plot_except ex w3
         | Inr f_lambdified \<Rightarrow>
             (let w4 = log_call (Call_lambdified f_lambdified x_vals) w3
              in case call_lambdified E f_lambdified x_vals of
                   Inl ex \<Rightarrow> plot_except ex w4
                 | Inr y_vals \<Rightarrow>
                     (let w5 = log_call (Ax_plot x_vals y_vals (py_str E expr)) w4
                      in case ax_plot E x_vals y_vals (py_str E expr) of
                           Some ex \<Rightarrow> plot_except ex w5
                         | None \<Rightarrow> (None, log_call Canvas_draw (log_call Ax_decorate w5)))))"

section \<open>solve_system\<close>

text \<open>
  \<^verbatim>\<open>left, right = eq.split('=')\<close> raises \<^verbatim>\<open>ValueError\<close> unless the split has two parts.
\<close>

definition rewrite_equation :: "ustring \<Rightarrow> abrupt + ustring" where
  "rewrite_equation eq =
     (if ch CHR ''='' \<in> set eq then
        (let parts = py_split (ch CHR ''='') eq
         in if length parts = 2 then
              Inr (pystr ''('' @ parts ! 0 @ pystr '') - ('' @ parts ! 1 @ pystr '')'')
            else if length parts > 2 then
              Inl (OtherException (pystr ''too many values to unpack (expected 2)''))
            else
              Inl (OtherException (pystr ''not enough values to unpack (expected 2, got 1)'')))
      else Inr eq)"

text \<open>The loop over the comma-separated segments; it stops at the first exception.\<close>

fun parse_equations ::
  "'o engine \<Rightarrow> ustring list \<Rightarrow> 'o list \<Rightarrow> ustring set \<Rightarrow> 'o window
     \<Rightarrow> (abrupt + 'o list \<times> ustring set) \<times> 'o window" where
  "parse_equations E [] equations variables w = (Inr (equations, variables), w)"
| "parse_equations E (eq # rest) equations variables w =
     (case rewrite_equation (strip eq) of
        Inl ex \<Rightarrow> (Inl ex, w)
      | Inr eq' \<Rightarrow>
          (let w1 = log_call (Sp_sympify eq') w
           in case sp_sympify E eq' of
                Inl ex \<Rightarrow> (Inl ex, w1)
              | Inr expr \<Rightarrow>
                  (let w2 = log_call (Sp_free_symbols expr) w1
                   in case free_symbols E expr of
                        Inl ex \<Rightarrow> (Inl ex, w2)
                      | Inr syms \<Rightarrow>
                          parse_equations E rest (equations @ [expr]) (variables \<union> set syms) w2)))"

text \<open>The comprehension \<^verbatim>\<open>[sol.evalf() for sol in solution_list[0]]\<close>.\<close>

fun evalf_all :: "'o engine \<Rightarrow> 'o list \<Rightarrow> 'o window \<Rightarrow> (abrupt + 'o list) \<times> 'o window" where
  "evalf_all E [] w = (Inr [], w)"
| "evalf_all E (sol # sols) w =
     (let w1 = log_call (Sp_evalf sol) w
      in case evalf E sol of
           Inl ex \<Rightarrow> (Inl ex, w1)
         | Inr v \<Rightarrow>
             (case evalf_all E sols w1 of
                (Inl ex, w2) \<Rightarrow> (Inl ex, w2)
              | (Inr vs, w2) \<Rightarrow> (Inr (v # vs), w2)))"

text \<open>
  The body of the \<^verbatim>\<open>try\<close> of \<^verbatim>\<open>solve_system\<close>: the text it returns, or what ends it
  before.
\<close>

definition solve_system_try ::
  "'o engine \<Rightarrow> ustring \<Rightarrow> 'o window \<Rightarrow> (abrupt + ustring) \<times> 'o window" where
  "solve_system_try E equation_str w =
     (case parse_equations E (py_split (ch CHR '','') equation_str) [] {} w of
        (Inl ex, w1) \<Rightarrow> (Inl ex, w1)
      | (Inr (equations, variable_set), w1) \<Rightarrow>
          (let variables = sorted_list_of_set variable_set;
               w2 = log_call (Sp_linsolve equations variables) w1
           in case sp_linsolve E equations variables of
                Inl ex \<Rightarrow> (Inl ex, w2)
              | Inr solutions \<Rightarrow>
                  if solutions = [] then (Inr (pystr ''No solution found.''), w2)
                  else if length solutions = 0 then (Inr (pystr ''No unique solution.''), w2)
                  else
                    (case evalf_all E (solutions ! 0) w2 of
                       (Inl ex, w3) \<Rightarrow> (Inl ex, w3)
                     | (Inr numeric_solutions, w3) \<Rightarrow>
                         (Inr (py_join (pystr ''     '')
                                (map (\<lambda>(var, sol). var @ pystr '' = '' @ py_str E sol)
                                   (zip variables numeric_solutions))), w3))))"

text \<open>
  \<^verbatim>\<open>solve_system\<close> with its \<^verbatim>\<open>except Exception\<close>: an instance of \<^verbatim>\<open>Exception\<close> becomes the
  returned text, anything else leaves the function.
\<close>

definition solve_system ::
  "'o engine \<Rightarrow> ustring \<Rightarrow> 'o window \<Rightarrow> (abrupt + ustring) \<times> 'o window" where
  "solve_system E equation_str w =
     (case solve_system_try E equation_str w of
        (Inl ex, w') \<Rightarrow>
          if is_Exception ex then (Inr (pystr ''Error solving system: '' @ exn_str ex), w')
          else (Inl ex, w')
      | (Inr formatted_solutions, w') \<Rightarrow> (Inr formatted_solutions, w'))"

section \<open>solve_equation\<close>

text \<open>
  The first three characters of the Integration text are the ones in the source file:
  U+00E2, U+02C6, U+00AB.
\<close>

definition integral_prefix :: ustring where
  "integral_prefix = [0xE2, 0x2C6, 0xAB] @ pystr ''f(x) dx = ''"

text \<open>
  The \<^verbatim>\<open>if\<close>/\<^verbatim>\<open>elif\<close> chain on the equation type, after the whole text has been parsed
  into \<open>expr\<close>: the value of \<^verbatim>\<open>formatted_solutions\<close>, or what leaves the chain before.
\<close>

definition solve_branch ::
  "'o engine \<Rightarrow> ustring \<Rightarrow> ustring \<Rightarrow> 'o \<Rightarrow> 'o window \<Rightarrow> (abrupt + ustring) \<times> 'o window" where
  "solve_branch E eq_type equation_str expr w =
     (if eq_type = pystr ''Algebraic Equation'' then
        (let w1 = log_call (Sp_solve expr) w
         in case sp_solve E expr of
              Inl ex \<Rightarrow> (Inl ex, w1)
            | Inr solutions \<Rightarrow>
                (let formatted_solutions = format_step_solution E solutions
                 in case plot_graph E expr w1 of
                      (Some ex, w2) \<Rightarrow> (Inl ex, w2)
                    | (None, w2) \<Rightarrow> (Inr formatted_solutions, w2)))
      else if eq_type = pystr ''Differentiation'' then
        (let w1 = log_call (Sp_diff expr) w
         in case sp_diff E expr of
              Inl ex \<Rightarrow> (Inl ex, w1)
            | Inr derivative \<Rightarrow>
                (let formatted_solutions = pystr ''f'(x) = '' @ py_str E derivative
                 in case plot_graph E expr w1 of
                      (Some ex, w2) \<Rightarrow> (Inl ex, w2)
                    | (None, w2) \<Rightarrow> (Inr formatted_solutions, w2)))
      else if eq_type = pystr ''Integration'' then
        (let w1 = log_call (Sp_integrate expr) w
         in case sp_integrate E expr of
              Inl ex \<Rightarrow> (Inl ex, w1)
            | Inr integral \<Rightarrow>
                (let formatted_solutions = integral_prefix @ py_str E integral @ pystr '' + C''
                 in case plot_graph E expr w1 of
                      (Some ex, w2) \<Rightarrow> (Inl ex, w2)
                    | (None, w2) \<Rightarrow> (Inr formatted_solutions, w2)))
      else if eq_type = pystr ''System of Equations'' then solve_system E equation_str w
      else (Inr (pystr ''Invalid selection.''), w))"

text \<open>The body of the \<^verbatim>\<open>try\<close> of \<^verbatim>\<open>solve_equation\<close>: what ends it before its last line, if anything.\<close>

definition solve_equation_try ::
  "'o engine \<Rightarrow> ustring \<Rightarrow> ustring \<Rightarrow> 'o window \<Rightarrow> abrupt option \<times> 'o window" where
  "solve_equation_try E eq_type equation_str w =
     (let w1 = log_call (Sp_sympify equation_str) (log_call Sp_Symbol w)
      in case sp_sympify E equation_str of
           Inl ex \<Rightarrow> (Some ex, w1)
         | Inr expr \<Rightarrow>
             (case solve_branch E eq_type equation_str expr w1 of
                (Inl ex, w2) \<Rightarrow> (Some ex, w2)
              | (Inr formatted_solutions, w2) \<Rightarrow> (None, setText formatted_solutions w2)))"

text \<open>
  The slot itself.  Its \<^verbatim>\<open>except Exception\<close> displays an instance of \<^verbatim>\<open>Exception\<close>;
  anything else leaves the slot: the first component is \<open>None\<close> when the slot returns.
\<close>

definition solve_equation :: "'o engine \<Rightarrow> 'o window \<Rightarrow> abrupt option \<times> 'o window" where
  "solve_equation E w =
     (let eq_type = equation_type_combo w;
          equation_str = strip (equation_input w)
      in if equation_str = [] then (None, setText (pystr ''Please enter an equation.'') w)
         else
           (case solve_equation_try E eq_type equation_str w of
              (Some ex, w') \<Rightarrow>
                if is_Exception ex then (None, setText (pystr ''Error: '' @ exn_str ex) w')
                else (Some ex, w')
            | (None, w') \<Rightarrow> (None, w')))"

section \<open>Reading the window after a call\<close>

text \<open>The calls made between a window and a later one.\<close>

definition new_calls :: "'o window \<Rightarrow> 'o window \<Rightarrow> 'o event list" where
  "new_calls w w' = drop (length (calls w)) (calls w')"

text \<open>The calls \<^verbatim>\<open>plot_graph\<close> makes on NumPy, on the compiled expression, the axes and the canvas.\<close>

fun is_plot_event :: "'o event \<Rightarrow> bool" where
  "is_plot_event Ax_clear = True"
| "is_plot_event (Np_linspace a b n) = True"
| "is_plot_event (Sp_lambdify e) = True"
| "is_plot_event (Call_lambdified f xs) = True"
| "is_plot_event (Ax_plot xs ys l) = True"
| "is_plot_event Ax_decorate = True"
| "is_plot_event Canvas_draw = True"
| "is_plot_event Sp_Symbol = False"
| "is_plot_event (Sp_sympify s) = False"
| "is_plot_event (Sp_solve e) = False"
| "is_plot_event (Sp_diff e) = False"
| "is_plot_event (Sp_integrate e) = False"
| "is_plot_event (Sp_free_symbols e) = False"
| "is_plot_event (Sp_linsolve es vs) = False"
| "is_plot_event (Sp_evalf e) = False"

text \<open>
  What ends the \<^verbatim>\<open>try\<close> of \<^verbatim>\<open>plot_graph\<close> before its last line, if anything: raised
  by compiling the expression, by evaluating it on the samples, or by drawing the line.
\<close>

definition plot_try :: "'o engine \<Rightarrow> 'o \<Rightarrow> abrupt option" where
  "plot_try E expr =
     (case sp_lambdify E expr of
        Inl ex \<Rightarrow> Some ex
      | Inr f_lambdified \<Rightarrow>
          (case call_lambdified E f_lambdified (linspace (- 10) 10 400) of
             Inl ex \<Rightarrow> Some ex
           | Inr y_vals \<Rightarrow> ax_plot E (linspace (- 10) 10 400) y_vals (py_str E expr)))"

section \<open>A table-driven engine for the examples\<close>

text \<open>
  An instance of the engine parameter on which the dispatcher can be run: an object is the
  text \<^verbatim>\<open>str\<close> prints for it, and each function is a finite table of the answers the
  libraries give on the example inputs (messages of exceptions shortened).  A text outside
  the parser's table is rejected; in particular every text with a single \<^verbatim>\<open>=\<close>, which is
  not expression syntax.  The parser evaluates the text it is given: the text
  \<^verbatim>\<open>__import__('sys').exit()\<close> raises \<^verbatim>\<open>SystemExit\<close>, whose message is empty.  The text
  \<^verbatim>\<open>None\<close> parses to \<^verbatim>\<open>None\<close>, which can be neither differentiated nor integrated.
\<close>

definition lookup :: "(string \<times> 'a) list \<Rightarrow> ustring \<Rightarrow> 'a option" where
  "lookup table key = map_of (map (\<lambda>(k, v). (pystr k, v)) table) key"

definition sample_sympify :: "ustring \<Rightarrow> abrupt + ustring" where
  "sample_sympify s =
     (if s = pystr ''__import__('sys').exit()'' then Inl (BaseException [])
      else
        (case lookup
           [(''x**2 - 4'', ''x**2 - 4''), (''x**2'', ''x**2''), (''2*x'', ''2*x''), (''5'', ''5''),
            (''x + y'', ''x + y''), (''x - cos(x)'', ''x - cos(x)''), (''z'', ''z''),
            (''None'', ''None''),
            (''x == y, z'', ''(False, z)''),
            (''x + y - 5, x - y - 1'', ''(x + y - 5, x - y - 1)''),
            (''x + y - 5'', ''x + y - 5''), (''x - y - 1'', ''x - y - 1''),
            (''(x + y ) - ( 5)'', ''x + y - 5''), (''(x - y ) - ( 1)'', ''x - y - 1''),
            (''x + y - 1, x + y - 2'', ''(x + y - 1, x + y - 2)''),
            (''x + y - 1'', ''x + y - 1''), (''x + y - 2'', ''x + y - 2''),
            (''(x + y ) - ( 1)'', ''x + y - 1''), (''(x + y ) - ( 2)'', ''x + y - 2''),
            (''x**2, y'', ''(x**2, y)''), (''y'', ''y'')] s of
           None \<Rightarrow> Inl (OtherException (pystr ''could not parse''))
         | Some v \<Rightarrow> Inr (pystr v)))"

definition sample_solve :: "ustring \<Rightarrow> abrupt + ustring list" where
  "sample_solve e =
     (case lookup
        [(''x**2 - 4'', Inr [pystr ''-2'', pystr ''2'']),
         (''x + y'', Inr [pystr ''-y'']),
         (''x - cos(x)'', Inl (OtherException (pystr ''multiple generators [x, cos(x)]'')))] e of
        None \<Rightarrow> Inr []
      | Some r \<Rightarrow> r)"

definition sample_diff :: "ustring \<Rightarrow> abrupt + ustring" where
  "sample_diff e =
     (case lookup
        [(''x**2'', Inr (pystr ''2*x'')), (''5'', Inr (pystr ''0'')), (''x + y'', Inr (pystr ''1'')),
         (''None'', Inl (OtherException (pystr ''no variables in the expression None'')))] e of
        None \<Rightarrow> Inr (pystr ''Derivative('' @ e @ pystr '', x)'')
      | Some r \<Rightarrow> r)"

definition sample_integrate :: "ustring \<Rightarrow> abrupt + ustring" where
  "sample_integrate e =
     (case lookup
        [(''2*x'', Inr (pystr ''x**2'')), (''5'', Inr (pystr ''5*x'')),
         (''None'', Inl (OtherException (pystr ''NoneType object has no attribute atoms'')))] e of
        None \<Rightarrow> Inr (pystr ''Integral('' @ e @ pystr '', x)'')
      | Some r \<Rightarrow> r)"

text \<open>
  The compiled function of a constant returns a scalar, the one of an expression with a
  second symbol an array of expressions, any other an array of floats.  Matplotlib refuses
  the scalar with a \<^verbatim>\<open>ValueError\<close> and the expressions with a \<^verbatim>\<open>TypeError\<close>.
\<close>

definition sample_call :: "ustring \<Rightarrow> rat list \<Rightarrow> abrupt + ustring" where
  "sample_call f x_vals =
     (case lookup [(''lambda x: 5'', ''5''), (''lambda x: x + y'', ''array of expressions'')] f of
        None \<Rightarrow> Inr (pystr ''array of floats'')
      | Some y \<Rightarrow> Inr (pystr y))"

definition sample_plot :: "rat list \<Rightarrow> ustring \<Rightarrow> ustring \<Rightarrow> abrupt option" where
  "sample_plot x_vals y_vals label =
     lookup
       [(''5'', OtherException (pystr ''x and y must have same first dimension'')),
        (''array of expressions'', TypeError (pystr ''Cannot convert expression to float''))]
       y_vals"

definition sample_free_symbols :: "ustring \<Rightarrow> abrupt + ustring list" where
  "sample_free_symbols e =
     (case lookup
        [(''x + y - 5'', [''x'', ''y'']), (''x - y - 1'', [''x'', ''y'']),
         (''x + y - 1'', [''x'', ''y'']), (''x + y - 2'', [''x'', ''y'']),
         (''x**2'', [''x'']), (''y'', [''y'']), (''z'', [''z''])] e of
        None \<Rightarrow> Inr []
      | Some vs \<Rightarrow> Inr (map pystr vs))"

definition sample_linsolve :: "ustring list \<Rightarrow> ustring list \<Rightarrow> abrupt + ustring list list" where
  "sample_linsolve equations variables =
     (if equations = [pystr ''x + y - 5'', pystr ''x - y - 1''] \<and> variables = [pystr ''x'', pystr ''y'']
      then Inr [[pystr ''3'', pystr ''2'']]
      else if equations = [pystr ''x**2'', pystr ''y'']
      then Inl (OtherException (pystr ''nonlinear term: x**2''))
      else Inr [])"

definition sample_evalf :: "ustring \<Rightarrow> abrupt + ustring" where
  "sample_evalf e =
     (case lookup [(''3'', ''3.00000000000000''), (''2'', ''2.00000000000000'')] e of
        None \<Rightarrow> Inr e
      | Some v \<Rightarrow> Inr (pystr v))"

definition sample_engine :: "ustring engine" where
  "sample_engine =
     \<lparr>sp_sympify = sample_sympify,
      sp_solve = sample_solve,
      sp_diff = sample_diff,
      sp_integrate = sample_integrate,
      py_str = (\<lambda>e. e),
      sp_lambdify = (\<lambda>e. Inr (pystr ''lambda x: '' @ e)),
      call_lambdified = sample_call,
      ax_plot = sample_plot,
      free_symbols = sample_free_symbols,
      sp_linsolve = sample_linsolve,
      evalf = sample_evalf\<rparr>"

text \<open>The same tables behind a compile step that raises for every expression.\<close>

definition no_compile_engine :: "ustring engine" where
  "no_compile_engine =
     sample_engine\<lparr>sp_lambdify := (\<lambda>e. Inl (OtherException (pystr ''cannot print the expression'')))\<rparr>"

text \<open>A freshly opened window with a mode selected and a text entered.\<close>

definition window_with :: "string \<Rightarrow> ustring \<Rightarrow> ustring window" where
  "window_with eq_type text =
     \<lparr>equation_type_combo = pystr eq_type, equation_input = text,
      solution_output = [], calls = []\<rparr>"

section \<open>Basic facts\<close>

lemma strip_blank:
  assumes "\<forall>c\<in>set s. py_isspace c"
  shows "strip s = []"
  using assms by (auto simp add: strip_def dest: set_dropWhileD)

lemma strip_Nil: "strip [] = []"
  by (simp add: strip_def)

lemma solve_equation_blank:
  "strip (equation_input w) = [] \<Longrightarrow>
   solve_equation E w = (None, setText (pystr ''Please enter an equation.'') w)"
  by (simp add: solve_equation_def)

lemma solve_equation_nonblank:
  "strip (equation_input w) = t \<Longrightarrow> t \<noteq> [] \<Longrightarrow>
   solve_equation E w =
     (case solve_equation_try E (equation_type_combo w) t w of
        (Some ex, w') \<Rightarrow>
          if is_Exception ex then (None, setText (pystr ''Error: '' @ exn_str ex) w')
          else (Some ex, w')
      | (None, w') \<Rightarrow> (None, w'))"
  by (simp add: solve_equation_def)

lemma calls_setText [simp]: "calls (setText t w) = calls w"
  by (simp add: setText_def)

lemma solution_output_setText [simp]: "solution_output (setText t w) = t"
  by (simp add: setText_def)

lemma calls_log_call [simp]: "calls (log_call ev w) = calls w @ [ev]"
  by (simp add: log_call_def)

lemma solution_output_log_call [simp]: "solution_output (log_call ev w) = solution_output w"
  by (simp add: log_call_def)

lemma plot_except_calls [simp]: "calls (snd (plot_except ex w)) = calls w"
  by (cases ex) simp_all

lemma plot_except_fst: "fst (plot_except ex w) = (if is_TypeError ex then None else Some ex)"
  by (cases ex) simp_all

lemma plot_except_output:
  "solution_output (snd (plot_except ex w)) = (if is_TypeError ex then plot_message else solution_output w)"
  by (cases ex) simp_all

lemma plot_graph_calls:
  "calls (snd (plot_graph E expr w)) =
     calls w @ [Ax_clear, Np_linspace (- 10) 10 400, Sp_Symbol, Sp_lambdify expr] @
     (case sp_lambdify E expr of
        Inl ex \<Rightarrow> []
      | Inr f \<Rightarrow>
          Call_lambdified f (linspace (- 10) 10 400) #
          (case call_lambdified E f (linspace (- 10) 10 400) of
             Inl ex \<Rightarrow> []
           | Inr y \<Rightarrow>
               Ax_plot (linspace (- 10) 10 400) y (py_str E expr) #
               (case ax_plot E (linspace (- 10) 10 400) y (py_str E expr) of
                  Some ex \<Rightarrow> []
                | None \<Rightarrow> [Ax_decorate, Canvas_draw])))"
  by (simp add: plot_graph_def Let_def split: sum.split option.split)

lemma plot_graph_fst:
  "fst (plot_graph E expr w) =
     (case plot_try E expr of
        None \<Rightarrow> None
      | Some ex \<Rightarrow> if is_TypeError ex then None else Some ex)"
  by (simp add: plot_graph_def plot_try_def Let_def plot_except_fst split: sum.split option.split)

lemma plot_graph_output:
  "solution_output (snd (plot_graph E expr w)) =
     (case plot_try E expr of
        None \<Rightarrow> solution_output w
      | Some ex \<Rightarrow> if is_TypeError ex then plot_message else solution_output w)"
  by (simp add: plot_graph_def plot_try_def Let_def plot_except_output split: sum.split option.split)

lemma mode_distinct:
  "pystr ''Differentiation'' \<noteq> pystr ''Algebraic Equation''"
  "pystr ''Integration'' \<noteq> pystr ''Algebraic Equation''"
  "pystr ''Integration'' \<noteq> pystr ''Differentiation''"
  "pystr ''System of Equations'' \<noteq> pystr ''Algebraic Equation''"
  "pystr ''System of Equations'' \<noteq> pystr ''Differentiation''"
  "pystr ''System of Equations'' \<noteq> pystr ''Integration''"
  by (simp_all add: pystr_def)

lemma new_calls_append: "calls w' = calls w @ evs \<Longrightarrow> new_calls w w' = evs"
  by (simp add: new_calls_def)

lemma plot_graph_returns:
  assumes "fst (plot_graph E expr w0) = None"
  shows "(case plot_graph E expr w of
            (Some ex, w2) \<Rightarrow> (Inl ex, w2)
          | (None, w2) \<Rightarrow> (Inr formatted, w2)) =
         (Inr formatted, snd (plot_graph E expr w))"
proof -
  obtain a w2 where p: "plot_graph E expr w = (a, w2)"
    by fastforce
  have "fst (plot_graph E expr w) = None"
    using assms by (simp add: plot_graph_fst)
  with p have "a = None"
    by simp
  with p show ?thesis
    by simp
qed

lemma solve_equation_try_parsed:
  "sp_sympify E t = Inr expr \<Longrightarrow>
   solve_equation_try E ty t w =
     (case solve_branch E ty t expr (log_call (Sp_sympify t) (log_call Sp_Symbol w)) of
        (Inl ex, w2) \<Rightarrow> (Some ex, w2)
      | (Inr formatted_solutions, w2) \<Rightarrow> (None, setText formatted_solutions w2))"
  by (simp add: solve_equation_try_def)

lemma solve_equation_try_rejected:
  "sp_sympify E t = Inl ex \<Longrightarrow>
   solve_equation_try E ty t w = (Some ex, log_call (Sp_sympify t) (log_call Sp_Symbol w))"
  by (simp add: solve_equation_try_def)

lemma solve_branch_algebraic:
  assumes "sp_solve E expr = Inr solutions" and "fst (plot_graph E expr w0) = None"
  shows "solve_branch E (pystr ''Algebraic Equation'') s expr w =
           (Inr (format_step_solution E solutions), snd (plot_graph E expr (log_call (Sp_solve expr) w)))"
  using assms(1) plot_graph_returns [OF assms(2)]
  by (simp add: solve_branch_def)

lemma solve_branch_differentiation:
  assumes "sp_diff E expr = Inr derivative" and "fst (plot_graph E expr w0) = None"
  shows "solve_branch E (pystr ''Differentiation'') s expr w =
           (Inr (pystr ''f'(x) = '' @ py_str E derivative), snd (plot_graph E expr (log_call (Sp_diff expr) w)))"
  using assms(1) plot_graph_returns [OF assms(2)]
  by (simp add: solve_branch_def mode_distinct)

lemma solve_branch_integration:
  assumes "sp_integrate E expr = Inr integral" and "fst (plot_graph E expr w0) = None"
  shows "solve_branch E (pystr ''Integration'') s expr w =
           (Inr (integral_prefix @ py_str E integral @ pystr '' + C''), snd (plot_graph E expr (log_call (Sp_integrate expr) w)))"
  using assms(1) plot_graph_returns [OF assms(2)]
  by (simp add: solve_branch_def mode_distinct)

lemma solve_branch_system:
  "solve_branch E (pystr ''System of Equations'') s expr w =
     solve_system E s w"
  by (simp add: solve_branch_def mode_distinct)

text \<open>The window a successful single-expression request leaves.\<close>

lemma solve_equation_plotted:
  assumes "strip (equation_input w) = t" and "t \<noteq> []"
    and "sp_sympify E t = Inr expr"
    and "solve_branch E (equation_type_combo w) t expr (log_call (Sp_sympify t) (log_call Sp_Symbol w)) =
           (Inr formatted, snd (plot_graph E expr (log_call ev (log_call (Sp_sympify t) (log_call Sp_Symbol w)))))"
  shows "fst (solve_equation E w) = None"
    and "solution_output (snd (solve_equation E w)) = formatted"
    and "new_calls w (snd (solve_equation E w)) =
           [Sp_Symbol, Sp_sympify t, ev] @ new_calls w0 (snd (plot_graph E expr w0))"
proof -
  let ?w1 = "log_call (Sp_sympify t) (log_call Sp_Symbol w)"
  have eq: "solve_equation E w = (None, setText formatted (snd (plot_graph E expr (log_call ev ?w1))))"
    using assms by (simp add: solve_equation_nonblank solve_equation_try_parsed)
  show "fst (solve_equation E w) = None"
    by (simp add: eq)
  show "solution_output (snd (solve_equation E w)) = formatted"
    by (simp add: eq)
  have "new_calls w0 (snd (plot_graph E expr w0)) = new_calls (log_call ev ?w1) (snd (plot_graph E expr (log_call ev ?w1)))"
    by (simp add: new_calls_def plot_graph_calls)
  moreover have "calls (snd (solve_equation E w)) =
      calls w @ [Sp_Symbol, Sp_sympify t, ev] @ new_calls (log_call ev ?w1) (snd (plot_graph E expr (log_call ev ?w1)))"
    by (simp add: eq new_calls_def plot_graph_calls)
  ultimately show "new_calls w (snd (solve_equation E w)) =
           [Sp_Symbol, Sp_sympify t, ev] @ new_calls w0 (snd (plot_graph E expr w0))"
    by (simp add: new_calls_append)
qed

lemma plot_graph_new_calls:
  "new_calls w (snd (plot_graph E expr w)) =
     [Ax_clear, Np_linspace (- 10) 10 400, Sp_Symbol, Sp_lambdify expr] @
     (case sp_lambdify E expr of
        Inl ex \<Rightarrow> []
      | Inr f \<Rightarrow>
          Call_lambdified f (linspace (- 10) 10 400) #
          (case call_lambdified E f (linspace (- 10) 10 400) of
             Inl ex \<Rightarrow> []
           | Inr y \<Rightarrow>
               Ax_plot (linspace (- 10) 10 400) y (py_str E expr) #
               (case ax_plot E (linspace (- 10) 10 400) y (py_str E expr) of
                  Some ex \<Rightarrow> []
                | None \<Rightarrow> [Ax_decorate, Canvas_draw])))"
  by (rule new_calls_append) (rule plot_graph_calls)

lemma plot_graph_lambdify_events:
  "Sp_lambdify e \<in> set (new_calls w (snd (plot_graph E expr w))) \<longleftrightarrow> e = expr"
  by (auto simp add: plot_graph_new_calls split: sum.splits option.splits)

lemma plot_graph_call_events:
  "Call_lambdified f xs \<in> set (new_calls w (snd (plot_graph E expr w))) \<longleftrightarrow>
     sp_lambdify E expr = Inr f \<and> xs = linspace (- 10) 10 400"
  by (auto simp add: plot_graph_new_calls split: sum.splits option.splits)

lemma plot_graph_linspace_events:
  "Np_linspace a b n \<in> set (new_calls w (snd (plot_graph E expr w))) \<longleftrightarrow>
     a = - 10 \<and> b = 10 \<and> n = 400"
  by (auto simp add: plot_graph_new_calls split: sum.splits option.splits)

lemma format_loop_concat:
  "format_loop E i sols acc =
     acc @ concat (map (\<lambda>(k, sol). pystr ''x'' @ str_nat (k + 1) @ pystr '' = '' @ py_str E sol @ pystr ''     '')
                     (enumerate i sols))"
  by (induction sols arbitrary: i acc) simp_all

lemma format_step_solution_concat:
  "format_step_solution E sols =
     pystr ''Solutions:'' @ [10] @
     concat (map (\<lambda>(k, sol). pystr ''x'' @ str_nat (k + 1) @ pystr '' = '' @ py_str E sol @ pystr ''     '')
               (enumerate 0 sols))"
  by (simp add: format_step_solution_def format_loop_concat)

lemma parse_equations_fst:
  "fst (parse_equations E segs eqs vars w) = fst (parse_equations E segs eqs vars w')"
proof (induction segs arbitrary: eqs vars w w')
  case Nil
  show ?case by simp
next
  case (Cons seg segs)
  show ?case
    by (auto simp add: Let_def Cons.IH split: sum.split)
qed

lemma parse_equations_calls:
  "\<exists>evs. calls (snd (parse_equations E segs eqs vars w)) = calls w @ evs \<and>
         (\<forall>ev\<in>set evs. \<not> is_plot_event ev)"
proof (induction segs arbitrary: eqs vars w)
  case Nil
  show ?case by simp
next
  case (Cons seg segs)
  show ?case
  proof (cases "rewrite_equation (strip seg)")
    case (Inl ex)
    then show ?thesis by simp
  next
    case eq: (Inr eq')
    show ?thesis
    proof (cases "sp_sympify E eq'")
      case (Inl ex)
      with eq show ?thesis by (simp add: Let_def)
    next
      case parsed: (Inr expr)
      show ?thesis
      proof (cases "free_symbols E expr")
        case (Inl ex)
        with eq parsed show ?thesis by (simp add: Let_def)
      next
        case (Inr syms)
        let ?w2 = "log_call (Sp_free_symbols expr) (log_call (Sp_sympify eq') w)"
        from Cons.IH [of "eqs @ [expr]" "vars \<union> set syms" ?w2]
        obtain evs where
          "calls (snd (parse_equations E segs (eqs @ [expr]) (vars \<union> set syms) ?w2)) = calls ?w2 @ evs"
          and "\<forall>ev\<in>set evs. \<not> is_plot_event ev"
          by blast
        with eq parsed Inr show ?thesis
          by (simp add: Let_def)
      qed
    qed
  qed
qed

lemma evalf_all_fst: "fst (evalf_all E sols w) = fst (evalf_all E sols w')"
proof (induction sols arbitrary: w w')
  case Nil
  show ?case by simp
next
  case (Cons sol sols)
  have "fst (evalf_all E sols (log_call (Sp_evalf sol) w)) = fst (evalf_all E sols (log_call (Sp_evalf sol) w'))"
    by (rule Cons.IH)
  then show ?case
    by (auto simp add: Let_def split: sum.split prod.split)
qed

lemma evalf_all_calls:
  "\<exists>evs. calls (snd (evalf_all E sols w)) = calls w @ evs \<and> (\<forall>ev\<in>set evs. \<not> is_plot_event ev)"
proof (induction sols arbitrary: w)
  case Nil
  show ?case by simp
next
  case (Cons sol sols)
  from Cons.IH [of "log_call (Sp_evalf sol) w"]
  obtain evs where "calls (snd (evalf_all E sols (log_call (Sp_evalf sol) w))) = calls w @ Sp_evalf sol # evs"
    and "\<forall>ev\<in>set evs. \<not> is_plot_event ev"
    by auto
  then show ?case
    by (auto simp add: Let_def split: sum.split prod.split)
qed

lemma solve_system_try_fst:
  "fst (solve_system_try E s w) = fst (solve_system_try E s w')"
proof -
  let ?segs = "py_split (ch CHR '','') s"
  obtain r w1 where p: "parse_equations E ?segs [] {} w = (r, w1)"
    by fastforce
  obtain r' w1' where "parse_equations E ?segs [] {} w' = (r', w1')"
    by fastforce
  with parse_equations_fst [of E ?segs "[]" "{}" w w'] p
  have p': "parse_equations E ?segs [] {} w' = (r, w1')"
    by simp
  show ?thesis
  proof (cases r)
    case (Inl ex)
    then show ?thesis by (simp add: solve_system_try_def p p')
  next
    case (Inr ev)
    obtain equations variable_set where ev: "ev = (equations, variable_set)"
      by fastforce
    let ?vars = "sorted_list_of_set variable_set"
    show ?thesis
    proof (cases "sp_linsolve E equations ?vars")
      case (Inl ex)
      then show ?thesis by (simp add: solve_system_try_def Let_def p p' Inr ev)
    next
      case sol: (Inr solutions)
      obtain a w3 where e: "evalf_all E (solutions ! 0) (log_call (Sp_linsolve equations ?vars) w1) = (a, w3)"
        by fastforce
      obtain a' w3' where "evalf_all E (solutions ! 0) (log_call (Sp_linsolve equations ?vars) w1') = (a', w3')"
        by fastforce
      with evalf_all_fst [of E "solutions ! 0" "log_call (Sp_linsolve equations ?vars) w1"
                            "log_call (Sp_linsolve equations ?vars) w1'"] e
      have e': "evalf_all E (solutions ! 0) (log_call (Sp_linsolve equations ?vars) w1') = (a, w3')"
        by simp
      show ?thesis
        by (simp add: solve_system_try_def Let_def p p' Inr ev sol e e' split: sum.split)
    qed
  qed
qed

lemma solve_system_try_calls:
  "\<exists>evs. calls (snd (solve_system_try E s w)) = calls w @ evs \<and> (\<forall>ev\<in>set evs. \<not> is_plot_event ev)"
proof -
  let ?segs = "py_split (ch CHR '','') s"
  obtain r w1 where p: "parse_equations E ?segs [] {} w = (r, w1)"
    by fastforce
  from parse_equations_calls [of E ?segs "[]" "{}" w] p
  obtain evs1 where c1: "calls w1 = calls w @ evs1" and n1: "\<forall>ev\<in>set evs1. \<not> is_plot_event ev"
    by auto
  show ?thesis
  proof (cases r)
    case (Inl ex)
    with p c1 n1 show ?thesis by (simp add: solve_system_try_def)
  next
    case (Inr ev)
    obtain equations variable_set where ev: "ev = (equations, variable_set)"
      by fastforce
    let ?vars = "sorted_list_of_set variable_set"
    let ?w2 = "log_call (Sp_linsolve equations ?vars) w1"
    show ?thesis
    proof (cases "sp_linsolve E equations ?vars")
      case (Inl ex)
      with p c1 n1 Inr ev show ?thesis by (simp add: solve_system_try_def Let_def)
    next
      case sol: (Inr solutions)
      from evalf_all_calls [of E "solutions ! 0" ?w2]
      obtain evs3 where c3: "calls (snd (evalf_all E (solutions ! 0) ?w2)) = calls ?w2 @ evs3"
        and n3: "\<forall>ev\<in>set evs3. \<not> is_plot_event ev"
        by blast
      with p c1 n1 Inr ev sol show ?thesis
        by (auto simp add: solve_system_try_def Let_def split: prod.split sum.split)
    qed
  qed
qed

lemma solve_system_calls:
  "\<exists>evs. calls (snd (solve_system E s w)) = calls w @ evs \<and> (\<forall>ev\<in>set evs. \<not> is_plot_event ev)"
proof -
  have "calls (snd (solve_system E s w)) = calls (snd (solve_system_try E s w))"
    by (simp add: solve_system_def split: prod.split sum.split)
  with solve_system_try_calls [of E s w] show ?thesis
    by simp
qed

lemma solve_system_raised:
  assumes "fst (solve_system_try E s w) = Inl ex" and "is_Exception ex"
  shows "fst (solve_system E s w) = Inr (pystr ''Error solving system: '' @ exn_str ex)"
proof -
  obtain w' where "solve_system_try E s w = (Inl ex, w')"
    using assms(1) by (metis prod.collapse)
  with assms(2) show ?thesis
    by (simp add: solve_system_def)
qed

lemma solve_system_propagated:
  assumes "fst (solve_system_try E s w) = Inl ex" and "\<not> is_Exception ex"
  shows "fst (solve_system E s w) = Inl ex"
proof -
  obtain w' where "solve_system_try E s w = (Inl ex, w')"
    using assms(1) by (metis prod.collapse)
  with assms(2) show ?thesis
    by (simp add: solve_system_def)
qed

lemma solve_system_returned:
  assumes "fst (solve_system_try E s w) = Inr formatted"
  shows "fst (solve_system E s w) = Inr formatted"
proof -
  obtain w' where "solve_system_try E s w = (Inr formatted, w')"
    using assms by (metis prod.collapse)
  then show ?thesis
    by (simp add: solve_system_def)
qed

lemma solve_system_fst: "fst (solve_system E s w) = fst (solve_system E s w')"
proof (cases "fst (solve_system_try E s w)")
  case (Inl ex)
  then have other: "fst (solve_system_try E s w') = Inl ex"
    using solve_system_try_fst [of E s w w'] by simp
  show ?thesis
  proof (cases "is_Exception ex")
    case True
    with Inl other show ?thesis by (simp add: solve_system_raised)
  next
    case False
    with Inl other show ?thesis by (simp add: solve_system_propagated)
  qed
next
  case (Inr formatted)
  moreover from Inr have "fst (solve_system_try E s w') = Inr formatted"
    using solve_system_try_fst [of E s w w'] by simp
  ultimately show ?thesis
    by (simp add: solve_system_returned)
qed

lemma solve_system_no_solution:
  assumes "fst (parse_equations E (py_split (ch CHR '','') s) [] {} w0) = Inr (equations, variable_set)"
    and "sp_linsolve E equations (sorted_list_of_set variable_set) = Inr []"
  shows "fst (solve_system E s w) = Inr (pystr ''No solution found.'')"
proof -
  have "fst (parse_equations E (py_split (ch CHR '','') s) [] {} w) = Inr (equations, variable_set)"
    using assms(1) parse_equations_fst [of E _ "[]" "{}" w w0] by simp
  then obtain w1 where "parse_equations E (py_split (ch CHR '','') s) [] {} w = (Inr (equations, variable_set), w1)"
    by (metis prod.collapse)
  with assms(2) show ?thesis
    by (simp add: solve_system_def solve_system_try_def Let_def)
qed



lemma solve_equation_completed:
  assumes "strip (equation_input w) = t" and "t \<noteq> []"
    and "solve_equation_try E (equation_type_combo w) t w = (None, w')"
  shows "solve_equation E w = (None, w')"
  using assms by (simp add: solve_equation_nonblank)


lemma solve_equation_rejected:
  assumes "strip (equation_input w) = t" and "t \<noteq> []" and "sp_sympify E t = Inl ex"
    and "is_Exception ex"
  shows "solve_equation E w =
           (None, setText (pystr ''Error: '' @ exn_str ex) (log_call (Sp_sympify t) (log_call Sp_Symbol w)))"
  using assms by (simp add: solve_equation_nonblank solve_equation_try_rejected)










lemma solve_equation_system:
  assumes "equation_type_combo w = pystr ''System of Equations''"
    and "strip (equation_input w) = t" and "t \<noteq> []"
    and "sp_sympify E t = Inr expr"
    and "fst (solve_system E t w0) = Inr formatted"
  shows "fst (solve_equation E w) = None"
    and "solution_output (snd (solve_equation E w)) = formatted"
proof -
  let ?w1 = "log_call (Sp_sympify t) (log_call Sp_Symbol w)"
  have "fst (solve_system E t ?w1) = Inr formatted"
    using assms(5) solve_system_fst [of E t ?w1 w0] by simp
  then obtain w2 where "solve_system E t ?w1 = (Inr formatted, w2)"
    by (metis prod.collapse)
  then have "solve_equation E w = (None, setText formatted w2)"
    using assms(1-4)
    by (simp add: solve_equation_nonblank solve_equation_try_parsed solve_branch_system)
  then show "fst (solve_equation E w) = None"
    and "solution_output (snd (solve_equation E w)) = formatted"
    by simp_all
qed

lemma plot_graph_type_error:
  assumes "plot_try E expr = Some (TypeError m)"
  shows "fst (plot_graph E expr w) = None"
    and "solution_output (snd (plot_graph E expr w)) = plot_message"
    and "Canvas_draw \<notin> set (new_calls w (snd (plot_graph E expr w)))"
proof -
  show "fst (plot_graph E expr w) = None"
    by (simp add: plot_graph_fst assms)
  show "solution_output (snd (plot_graph E expr w)) = plot_message"
    by (simp add: plot_graph_output assms)
  show "Canvas_draw \<notin> set (new_calls w (snd (plot_graph E expr w)))"
    using assms
    by (auto simp add: plot_graph_new_calls plot_try_def split: sum.splits option.splits)
qed

lemma format_step_solution_not_plot_message: "format_step_solution E sols \<noteq> plot_message"
  by (simp add: format_step_solution_concat plot_message_def pystr_def ch_def)

section \<open>Rounding to double precision\<close>

lemma log2_nat_bounds: "0 < n \<Longrightarrow> 2 ^ log2_nat n \<le> n \<and> n < 2 ^ (log2_nat n + 1)"
proof (induction n rule: log2_nat.induct)
  case (1 n)
  show ?case
  proof (cases "n < 2")
    case True
    with "1.prems" have "n = 1" by simp
    then show ?thesis by (simp add: log2_nat.simps)
  next
    case False
    then have "0 < n div 2" by simp
    with "1.IH" False have ih: "2 ^ log2_nat (n div 2) \<le> n div 2 \<and> n div 2 < 2 ^ (log2_nat (n div 2) + 1)"
      by simp
    have eq: "log2_nat n = 1 + log2_nat (n div 2)"
      using False by (subst log2_nat.simps) simp
    from ih have "2 * 2 ^ log2_nat (n div 2) \<le> n" by linarith
    moreover from ih have "n < 2 * 2 ^ (log2_nat (n div 2) + 1)" by linarith
    ultimately show ?thesis
      unfolding eq by simp
  qed
qed

lemma pow2_power_int: "pow2 e = power_int 2 e"
proof (cases "0 \<le> e")
  case True
  then show ?thesis by (simp add: pow2_def power_int_def)
next
  case False
  have "inverse (2 :: rat) ^ nat (- e) = 1 / 2 ^ nat (- e)"
    by (simp add: inverse_eq_divide power_one_over)
  with False show ?thesis by (simp add: pow2_def power_int_def)
qed

lemma pow2_pos: "0 < pow2 e"
  by (simp add: pow2_power_int)

lemma pow2_add: "pow2 (a + b) = pow2 a * pow2 b"
  by (simp add: pow2_power_int power_int_add)

lemma pow2_nat: "pow2 (int n) = 2 ^ n"
  by (simp add: pow2_def)

lemma pow2_neg_nat: "pow2 (- int n) = 1 / 2 ^ n"
  by (cases n) (simp_all add: pow2_def del: of_nat_Suc)

lemma binary_exponent_bounds:
  assumes "q \<noteq> 0"
  shows "pow2 (binary_exponent q) \<le> \<bar>q\<bar> \<and> \<bar>q\<bar> < pow2 (binary_exponent q + 1)"
proof (cases "1 \<le> \<bar>q\<bar>")
  case True
  let ?m = "nat \<lfloor>\<bar>q\<bar>\<rfloor>"
  have m: "0 < ?m" using True by simp
  have e: "binary_exponent q = int (log2_nat ?m)"
    using True by (simp add: binary_exponent_def)
  from log2_nat_bounds [OF m] have lo: "2 ^ log2_nat ?m \<le> ?m" and hi: "?m < 2 ^ (log2_nat ?m + 1)"
    by simp_all
  have "(of_nat ?m :: rat) \<le> \<bar>q\<bar>"
    using True by (simp add: of_nat_nat)
  moreover from lo have "(2 :: rat) ^ log2_nat ?m \<le> of_nat ?m"
    by (metis of_nat_le_iff of_nat_numeral of_nat_power)
  ultimately have 1: "pow2 (binary_exponent q) \<le> \<bar>q\<bar>"
    unfolding e pow2_nat by linarith
  from hi have "?m + 1 \<le> 2 ^ (log2_nat ?m + 1)" by simp
  then have "(of_nat (?m + 1) :: rat) \<le> 2 ^ (log2_nat ?m + 1)"
    by (metis of_nat_le_iff of_nat_numeral of_nat_power)
  moreover have "\<bar>q\<bar> < of_nat (?m + 1)"
    using True by (simp add: of_nat_nat) linarith
  moreover have "pow2 (int (log2_nat ?m) + 1) = 2 ^ (log2_nat ?m + 1)"
    using pow2_nat [of "log2_nat ?m + 1"] by (simp add: add.commute)
  ultimately have 2: "\<bar>q\<bar> < pow2 (binary_exponent q + 1)"
    unfolding e by linarith
  from 1 2 show ?thesis ..
next
  case False
  let ?a = "\<bar>q\<bar>"
  let ?c = "\<lceil>1 / ?a\<rceil>"
  let ?m = "nat (?c - 1)"
  let ?k = "log2_nat ?m"
  have a: "0 < ?a" "?a < 1" using assms False by simp_all
  then have inv: "1 < 1 / ?a" by simp
  then have c2: "2 \<le> ?c" by (simp add: le_ceiling_iff)
  then have m: "0 < ?m" by simp
  have e: "binary_exponent q = - int ?k - 1"
    using False by (simp add: binary_exponent_def)
  from log2_nat_bounds [OF m] have lo: "2 ^ ?k \<le> ?m" and hi: "?m < 2 ^ (?k + 1)"
    by simp_all
  have "0 \<le> ?c - 1"
    using c2 by linarith
  then have "(of_nat ?m :: rat) = of_int (?c - 1)"
    by (rule of_nat_nat)
  then have mc: "(of_nat ?m :: rat) = of_int ?c - 1"
    by simp
  have c_lo: "of_int ?c - 1 < 1 / ?a" by linarith
  have c_hi: "1 / ?a \<le> of_int ?c" by linarith
  from lo have "(2 :: rat) ^ ?k \<le> of_nat ?m"
    by (metis of_nat_le_iff of_nat_numeral of_nat_power)
  with mc c_lo have "(2 :: rat) ^ ?k < 1 / ?a" by linarith
  then have upper: "?a < 1 / 2 ^ ?k"
    using a by (simp add: field_simps)
  from hi have "?m + 1 \<le> 2 ^ (?k + 1)" by simp
  then have "(of_nat (?m + 1) :: rat) \<le> 2 ^ (?k + 1)"
    by (metis of_nat_le_iff of_nat_numeral of_nat_power)
  moreover have "(of_nat (?m + 1) :: rat) = of_int ?c"
    using mc by simp
  ultimately have "1 / ?a \<le> 2 ^ (?k + 1)"
    using c_hi by linarith
  then have lower: "1 / 2 ^ (?k + 1) \<le> ?a"
    using a by (simp add: field_simps)
  have i1: "binary_exponent q = - int (?k + 1)"
    unfolding e by simp
  have p1: "pow2 (binary_exponent q) = 1 / 2 ^ (?k + 1)"
    unfolding i1 by (rule pow2_neg_nat)
  have i2: "binary_exponent q + 1 = - int ?k"
    unfolding e by simp
  have p2: "pow2 (binary_exponent q + 1) = 1 / 2 ^ ?k"
    unfolding i2 by (rule pow2_neg_nat)
  from lower upper show ?thesis
    unfolding p1 p2 ..
qed

lemma round_half_even_error: "\<bar>of_int (round_half_even x) - x\<bar> \<le> 1 / 2"
proof -
  define f where "f = \<lfloor>x\<rfloor>"
  have b: "of_int f \<le> x" "x < of_int f + 1"
    unfolding f_def by linarith+
  have "round_half_even x =
      (if x - of_int f < 1 / 2 then f else if 1 / 2 < x - of_int f then f + 1
       else if even f then f else f + 1)"
    by (simp add: round_half_even_def Let_def f_def)
  with b show ?thesis
    by (auto simp add: abs_if)
qed

lemma round_double_error: "\<bar>round_double q - q\<bar> \<le> \<bar>q\<bar> / 2 ^ 53"
proof (cases "q = 0")
  case True
  then show ?thesis by (simp add: round_double_def)
next
  case False
  let ?e = "binary_exponent q"
  let ?u = "pow2 (?e - 52)"
  let ?n = "round_half_even (q / ?u)"
  have u: "0 < ?u" by (rule pow2_pos)
  have rd: "round_double q = of_int ?n * ?u"
    using False by (simp add: round_double_def Let_def)
  have "round_double q - q = (of_int ?n - q / ?u) * ?u"
    using u by (simp add: rd field_simps)
  then have "\<bar>round_double q - q\<bar> = \<bar>of_int ?n - q / ?u\<bar> * ?u"
    using u by (simp add: abs_mult)
  also have "\<dots> \<le> (1 / 2) * ?u"
    using round_half_even_error [of "q / ?u"] u by (intro mult_right_mono) simp_all
  finally have 1: "\<bar>round_double q - q\<bar> \<le> ?u / 2"
    by simp
  have "pow2 ?e = pow2 ((?e - 52) + 52)" by simp
  also have "\<dots> = ?u * 2 ^ 52"
    unfolding pow2_add using pow2_nat [of 52] by simp
  finally have "?u = pow2 ?e / 2 ^ 52"
    by simp
  then have "?u / 2 = pow2 ?e / 2 ^ 53"
    by simp
  also have "\<dots> \<le> \<bar>q\<bar> / 2 ^ 53"
    using binary_exponent_bounds [OF False] by (simp add: divide_right_mono)
  finally show ?thesis
    using 1 by linarith
qed


lemma linspace_length: "length (linspace start stop num) = num"
  by (simp add: linspace_def Let_def)

lemma linspace_nth:
  assumes "i < num - 1"
  shows "linspace start stop num ! i =
           round_double (round_double (of_nat i * round_double (round_double (stop - start) / of_nat (num - 1))) + start)"
proof -
  from assms have "i < num" "i \<noteq> num - 1" "1 < num"
    by simp_all
  then show ?thesis
    by (simp add: linspace_def Let_def nth_list_update del: of_nat_diff)
qed

lemma linspace_last_nth:
  assumes "1 < num"
  shows "linspace start stop num ! (num - 1) = stop"
  using assms by (simp add: linspace_def Let_def)

lemma round_double_exact:
  "round_double 0 = 0" "round_double 20 = 20" "round_double (- 10) = - 10"
  by code_simp+

lemma linspace_400_nth:
  assumes "i < 399"
  shows "linspace (- 10) 10 400 ! i =
           round_double (round_double (of_nat i * round_double (20 / 399)) + (- 10))"
  using assms linspace_nth [where i = i and num = 400 and start = "- 10" and stop = 10]
  by (simp add: round_double_exact)

lemma sample_error:
  fixes r :: rat
  assumes "0 \<le> r" and "r \<le> 398"
  shows "\<bar>round_double (round_double (r * round_double (20 / 399)) + (- 10)) - (- 10 + r * (20 / 399))\<bar>
           \<le> 1 / 2 ^ 47"
proof -
  define s where "s = round_double (20 / 399)"
  define t where "t = r * s"
  define g where "g = r * (20 / 399)"
  define p where "p = round_double t"
  define x where "x = round_double (p + (- 10))"
  have a: "\<bar>s - 20 / 399\<bar> \<le> (20 / 399) / 2 ^ 53"
    using round_double_error [of "20 / 399"] by (simp add: s_def)
  have "\<bar>t - g\<bar> = \<bar>r * (s - 20 / 399)\<bar>"
    unfolding t_def g_def by (simp only: right_diff_distrib)
  also have "\<dots> = r * \<bar>s - 20 / 399\<bar>"
    using assms(1) by (simp only: abs_mult abs_of_nonneg)
  also have "\<dots> \<le> 398 * ((20 / 399) / 2 ^ 53)"
    using assms a by (intro mult_mono) simp_all
  also have "\<dots> \<le> 20 / 9007199254740992"
    by simp
  finally have b: "\<bar>t - g\<bar> \<le> 20 / 9007199254740992" .
  have "0 \<le> r * (20 / 399)" "r * (20 / 399) \<le> 398 * (20 / 399)"
    using assms by simp_all
  then have c: "0 \<le> g" "g \<le> 20"
    unfolding g_def by simp_all
  from b c have d: "\<bar>t\<bar> \<le> 21"
    by linarith
  have "\<bar>p - t\<bar> \<le> \<bar>t\<bar> / 2 ^ 53"
    unfolding p_def by (rule round_double_error)
  then have "\<bar>p - t\<bar> \<le> \<bar>t\<bar> / 9007199254740992"
    by simp
  with d have e: "\<bar>p - t\<bar> \<le> 21 / 9007199254740992"
    by linarith
  from c b e have y: "\<bar>p + (- 10)\<bar> \<le> 11"
    by linarith
  have "\<bar>x - (p + (- 10))\<bar> \<le> \<bar>p + (- 10)\<bar> / 2 ^ 53"
    unfolding x_def by (rule round_double_error)
  then have "\<bar>x - (p + (- 10))\<bar> \<le> \<bar>p + (- 10)\<bar> / 9007199254740992"
    by simp
  moreover from y have "\<bar>p + (- 10)\<bar> / 9007199254740992 \<le> 11 / 9007199254740992"
    by (rule divide_right_mono) simp
  ultimately have h: "\<bar>x - (p + (- 10))\<bar> \<le> 11 / 9007199254740992"
    by (rule order_trans)
  from b e h have "\<bar>x - (- 10 + g)\<bar> \<le> 1 / 140737488355328"
    by linarith
  then have "\<bar>x - (- 10 + g)\<bar> \<le> 1 / 2 ^ 47"
    by simp
  then show ?thesis
    unfolding x_def p_def t_def s_def g_def .
qed

lemma linspace_400_error:
  assumes "i < 400"
  shows "\<bar>linspace (- 10) 10 400 ! i - (- 10 + of_nat i * (20 / 399))\<bar> \<le> 1 / 2 ^ 47"
proof (cases "i = 399")
  case True
  then show ?thesis
    using linspace_last_nth [of 400 "- 10" 10] by simp
next
  case False
  with assms have i: "i < 399" by simp
  then have "(of_nat i :: rat) \<le> 398"
    by simp
  from sample_error [OF _ this] show ?thesis
    by (simp add: linspace_400_nth [OF i])
qed

lemma linspace_400_first: "linspace (- 10) 10 400 ! 0 = - 10"
  using linspace_400_nth [of 0] by (simp add: round_double_exact)

lemma linspace_400_range:
  assumes "i < 400"
  shows "- 10 \<le> linspace (- 10) 10 400 ! i \<and> linspace (- 10) 10 400 ! i \<le> 10"
proof -
  consider "i = 0" | "i = 399" | "1 \<le> i" "i \<le> 398"
    using assms by linarith
  then show ?thesis
  proof cases
    case 1
    then show ?thesis by (simp add: linspace_400_first)
  next
    case 2
    then show ?thesis using linspace_last_nth [of 400 "- 10" 10] by simp
  next
    case 3
    define x where "x = linspace (- 10) 10 400 ! i"
    define g where "g = (of_nat i :: rat) * (20 / 399)"
    have "(1 :: rat) \<le> of_nat i" "(of_nat i :: rat) \<le> 398"
      using 3 by simp_all
    then have "1 * (20 / 399) \<le> (of_nat i :: rat) * (20 / 399)"
      "(of_nat i :: rat) * (20 / 399) \<le> 398 * (20 / 399)"
      by (simp_all only: mult_le_cancel_right) simp_all
    then have g: "20 / 399 \<le> g" "g \<le> 7960 / 399"
      unfolding g_def by simp_all
    have "\<bar>x - (- 10 + g)\<bar> \<le> 1 / 2 ^ 47"
      unfolding x_def g_def by (rule linspace_400_error [OF assms])
    then have "\<bar>x - (- 10 + g)\<bar> \<le> 1 / 140737488355328"
      by simp
    with g have "- 10 \<le> x \<and> x \<le> 10"
      by linarith
    then show ?thesis
      unfolding x_def .
  qed
qed

lemma linspace_400_step:
  assumes "i < 399"
  shows "\<bar>(linspace (- 10) 10 400 ! Suc i - linspace (- 10) 10 400 ! i) - 20 / 399\<bar> \<le> 1 / 2 ^ 46"
proof -
  define x where "x = linspace (- 10) 10 400 ! i"
  define x' where "x' = linspace (- 10) 10 400 ! Suc i"
  define g where "g = (of_nat i :: rat) * (20 / 399)"
  have eq: "(of_nat (Suc i) :: rat) * (20 / 399) = g + 20 / 399"
    unfolding g_def by (simp add: algebra_simps)
  have pw: "(1 :: rat) / 2 ^ 47 = 1 / 140737488355328"
    by simp
  have "\<bar>x' - (- 10 + of_nat (Suc i) * (20 / 399))\<bar> \<le> 1 / 2 ^ 47"
    unfolding x'_def using assms by (intro linspace_400_error) simp
  then have a: "\<bar>x' - (- 10 + (g + 20 / 399))\<bar> \<le> 1 / 140737488355328"
    by (simp only: eq pw)
  have "\<bar>x - (- 10 + g)\<bar> \<le> 1 / 2 ^ 47"
    unfolding x_def g_def using assms by (intro linspace_400_error) simp
  then have b: "\<bar>x - (- 10 + g)\<bar> \<le> 1 / 140737488355328"
    by (simp only: pw)
  from a b have "\<bar>(x' - x) - 20 / 399\<bar> \<le> 1 / 70368744177664"
    by linarith
  then have "\<bar>(x' - x) - 20 / 399\<bar> \<le> 1 / 2 ^ 46"
    by simp
  then show ?thesis
    unfolding x_def x'_def .
qed

lemma linspace_400_uneven:
  "linspace (- 10) 10 400 ! 1 - linspace (- 10) 10 400 ! 0 \<noteq>
   linspace (- 10) 10 400 ! 2 - linspace (- 10) 10 400 ! 1"
proof -
  have 0: "linspace (- 10) 10 400 ! 0 = - 10"
    by (rule linspace_400_first)
  have s: "round_double (20 / 399) = 225744342224085 / 4503599627370496"
    by code_simp
  have "round_double (round_double (1 * (225744342224085 / 4503599627370496)) + (- 10)) =
      - (5601281491435109 / 562949953421312)"
    by code_simp
  then have 1: "linspace (- 10) 10 400 ! 1 = - (5601281491435109 / 562949953421312)"
    using linspace_400_nth [of 1] by (simp add: s)
  have "round_double (round_double (2 * (225744342224085 / 4503599627370496)) + (- 10)) =
      - (5573063448657099 / 562949953421312)"
    by code_simp
  then have 2: "linspace (- 10) 10 400 ! 2 = - (5573063448657099 / 562949953421312)"
    using linspace_400_nth [of 2] by (simp add: s)
  show ?thesis
    unfolding 0 1 2 by simp
qed

section \<open>The calls of a run\<close>

lemma plot_graph_calls_new:
  "calls (snd (plot_graph E expr w1)) = calls w1 @ new_calls w (snd (plot_graph E expr w))"
  by (simp add: plot_graph_new_calls plot_graph_calls)

lemma plot_case_calls:
  "calls (snd (case plot_graph E expr w1 of
                 (Some ex, w2) \<Rightarrow> (Inl ex, w2)
               | (None, w2) \<Rightarrow> (Inr formatted, w2))) =
   calls w1 @ new_calls w (snd (plot_graph E expr w))"
proof -
  have "calls (snd (case plot_graph E expr w1 of
                 (Some ex, w2) \<Rightarrow> (Inl ex, w2)
               | (None, w2) \<Rightarrow> (Inr formatted, w2))) = calls (snd (plot_graph E expr w1))"
    by (simp split: prod.split option.split)
  then show ?thesis
    by (simp add: plot_graph_calls_new [of E expr w1 w])
qed

lemma solve_branch_calls:
  "\<exists>evs. calls (snd (solve_branch E ty s expr w)) = calls w @ evs \<and>
         (\<forall>ev\<in>set evs. is_plot_event ev \<longrightarrow> ev \<in> set (new_calls w (snd (plot_graph E expr w)))) \<and>
         (ty = pystr ''System of Equations'' \<longrightarrow> (\<forall>ev\<in>set evs. \<not> is_plot_event ev))"
proof -
  let ?P = "new_calls w (snd (plot_graph E expr w))"
  consider (alg) "ty = pystr ''Algebraic Equation''"
    | (dif) "ty = pystr ''Differentiation''"
    | (int) "ty = pystr ''Integration''"
    | (sys) "ty = pystr ''System of Equations''"
    | (other) "ty \<noteq> pystr ''Algebraic Equation''" "ty \<noteq> pystr ''Differentiation''"
        "ty \<noteq> pystr ''Integration''" "ty \<noteq> pystr ''System of Equations''"
    by blast
  then show ?thesis
  proof cases
    case alg
    have "calls (snd (solve_branch E ty s expr w)) =
        calls w @ Sp_solve expr # (case sp_solve E expr of Inl ex \<Rightarrow> [] | Inr sols \<Rightarrow> ?P)"
      by (simp add: alg solve_branch_def Let_def plot_case_calls [where w = w] split: sum.split)
    moreover have "\<forall>ev\<in>set (Sp_solve expr # (case sp_solve E expr of Inl ex \<Rightarrow> [] | Inr sols \<Rightarrow> ?P)).
        is_plot_event ev \<longrightarrow> ev \<in> set ?P"
      by (auto split: sum.split)
    ultimately show ?thesis
      using alg mode_distinct by fastforce
  next
    case dif
    have "calls (snd (solve_branch E ty s expr w)) =
        calls w @ Sp_diff expr # (case sp_diff E expr of Inl ex \<Rightarrow> [] | Inr d \<Rightarrow> ?P)"
      by (simp add: dif mode_distinct solve_branch_def Let_def plot_case_calls [where w = w] split: sum.split)
    moreover have "\<forall>ev\<in>set (Sp_diff expr # (case sp_diff E expr of Inl ex \<Rightarrow> [] | Inr d \<Rightarrow> ?P)).
        is_plot_event ev \<longrightarrow> ev \<in> set ?P"
      by (auto split: sum.split)
    ultimately show ?thesis
      using dif mode_distinct by fastforce
  next
    case int
    have "calls (snd (solve_branch E ty s expr w)) =
        calls w @ Sp_integrate expr # (case sp_integrate E expr of Inl ex \<Rightarrow> [] | Inr d \<Rightarrow> ?P)"
      by (simp add: int mode_distinct solve_branch_def Let_def plot_case_calls [where w = w] split: sum.split)
    moreover have "\<forall>ev\<in>set (Sp_integrate expr # (case sp_integrate E expr of Inl ex \<Rightarrow> [] | Inr d \<Rightarrow> ?P)).
        is_plot_event ev \<longrightarrow> ev \<in> set ?P"
      by (auto split: sum.split)
    ultimately show ?thesis
      using int mode_distinct by fastforce
  next
    case sys
    from solve_system_calls [of E s w]
    obtain evs where "calls (snd (solve_system E s w)) = calls w @ evs"
      and "\<forall>ev\<in>set evs. \<not> is_plot_event ev"
      by blast
    then show ?thesis
      by (auto simp add: sys solve_branch_system)
  next
    case other
    then have "calls (snd (solve_branch E ty s expr w)) = calls w @ []"
      by (simp add: solve_branch_def)
    then show ?thesis
      using other by fastforce
  qed
qed

lemma solve_equation_calls:
  "\<exists>evs. calls (snd (solve_equation E w)) = calls w @ evs \<and>
         (\<forall>ev\<in>set evs. is_plot_event ev \<longrightarrow>
            (\<exists>expr. sp_sympify E (strip (equation_input w)) = Inr expr \<and>
                    ev \<in> set (new_calls w (snd (plot_graph E expr w))))) \<and>
         (equation_type_combo w = pystr ''System of Equations'' \<longrightarrow> (\<forall>ev\<in>set evs. \<not> is_plot_event ev))"
proof (cases "strip (equation_input w) = []")
  case True
  then have "calls (snd (solve_equation E w)) = calls w @ []"
    by (simp add: solve_equation_blank)
  then show ?thesis
    by fastforce
next
  case False
  let ?t = "strip (equation_input w)"
  let ?w1 = "log_call (Sp_sympify ?t) (log_call Sp_Symbol w)"
  show ?thesis
  proof (cases "sp_sympify E ?t")
    case (Inl ex)
    have "calls (snd (solve_equation E w)) = calls w @ [Sp_Symbol, Sp_sympify ?t]"
      using False Inl by (simp add: solve_equation_nonblank [OF refl] solve_equation_try_rejected)
    then show ?thesis
      by fastforce
  next
    case (Inr expr)
    from solve_branch_calls [of E "equation_type_combo w" ?t expr ?w1]
    obtain evs where c: "calls (snd (solve_branch E (equation_type_combo w) ?t expr ?w1)) = calls ?w1 @ evs"
      and p: "\<forall>ev\<in>set evs. is_plot_event ev \<longrightarrow> ev \<in> set (new_calls ?w1 (snd (plot_graph E expr ?w1)))"
      and n: "equation_type_combo w = pystr ''System of Equations'' \<longrightarrow> (\<forall>ev\<in>set evs. \<not> is_plot_event ev)"
      by blast
    have same: "new_calls ?w1 (snd (plot_graph E expr ?w1)) = new_calls w (snd (plot_graph E expr w))"
      by (simp add: plot_graph_new_calls)
    have "calls (snd (solve_equation E w)) = calls (snd (solve_branch E (equation_type_combo w) ?t expr ?w1))"
      using False Inr
      by (simp add: solve_equation_nonblank [OF refl] solve_equation_try_parsed split: prod.split sum.split)
    with c have "calls (snd (solve_equation E w)) = calls w @ Sp_Symbol # Sp_sympify ?t # evs"
      by simp
    moreover have "\<forall>ev\<in>set (Sp_Symbol # Sp_sympify ?t # evs). is_plot_event ev \<longrightarrow>
        (\<exists>expr. sp_sympify E ?t = Inr expr \<and> ev \<in> set (new_calls w (snd (plot_graph E expr w))))"
      using p Inr same by auto
    moreover have "equation_type_combo w = pystr ''System of Equations'' \<longrightarrow>
        (\<forall>ev\<in>set (Sp_Symbol # Sp_sympify ?t # evs). \<not> is_plot_event ev)"
      using n by simp
    ultimately show ?thesis
      by blast
  qed
qed

text \<open>Unfolding the dispatcher and the table-driven engine on a concrete window.\<close>

lemmas string_simps = pystr_def ch_def strip_def py_isspace_def

lemmas sample_simps =
  sample_engine_def sample_sympify_def sample_solve_def sample_diff_def sample_integrate_def
  sample_call_def sample_plot_def sample_free_symbols_def sample_linsolve_def sample_evalf_def
  lookup_def window_with_def

lemmas dispatcher_simps =
  solve_equation_def solve_equation_try_def solve_branch_def solve_system_def solve_system_try_def
  rewrite_equation_def plot_graph_def plot_try_def format_step_solution_def integral_prefix_def
  plot_message_def setText_def log_call_def new_calls_def Let_def

section \<open>Empty and blank input\<close>

text \<open>
  Claim C5.  In every mode, when the submitted input string is empty, the dispatcher sets
  the display text to the prompt \<^verbatim>\<open>Please enter an equation.\<close> and returns without calling
  the algebra engine or the plot: the record of calls is unchanged, and the result is the
  same whatever the engine is.
\<close>

theorem C5_empty_input:
  assumes "equation_input w = []"
  shows "fst (solve_equation E w) = None \<and>
         solution_output (snd (solve_equation E w)) = pystr ''Please enter an equation.'' \<and>
         calls (snd (solve_equation E w)) = calls w \<and>
         solve_equation E w = solve_equation E' w"
proof -
  from assms have "strip (equation_input w) = []"
    by (simp add: strip_Nil)
  then have "solve_equation F w = (None, setText (pystr ''Please enter an equation.'') w)" for F :: "'a engine"
    by (rule solve_equation_blank)
  then show ?thesis
    by simp
qed

theorem C5_empty_input_witness:
  "solution_output (snd (solve_equation sample_engine (window_with ''Integration'' []))) =
     pystr ''Please enter an equation.'' \<and>
   calls (snd (solve_equation sample_engine (window_with ''Integration'' []))) = []"
proof -
  have "equation_input (window_with ''Integration'' ([] :: ustring)) = []"
    by (simp add: window_with_def)
  from C5_empty_input [OF this, of sample_engine sample_engine] show ?thesis
    by (simp add: window_with_def)
qed

text \<open>
  Claim C10.  The input is stripped before the test for emptiness: for every input made of
  whitespace characters only, the dispatcher displays the prompt and makes no call, exactly
  as it does for the empty string.
\<close>

theorem C10_whitespace_input:
  assumes "\<forall>c\<in>set (equation_input w). py_isspace c"
  shows "fst (solve_equation E w) = None \<and>
         solution_output (snd (solve_equation E w)) = pystr ''Please enter an equation.'' \<and>
         calls (snd (solve_equation E w)) = calls w \<and>
         solution_output (snd (solve_equation E w)) =
           solution_output (snd (solve_equation E (w\<lparr>equation_input := []\<rparr>))) \<and>
         calls (snd (solve_equation E w)) = calls (snd (solve_equation E (w\<lparr>equation_input := []\<rparr>)))"
proof -
  from assms have "strip (equation_input w) = []"
    by (rule strip_blank)
  then have 1: "solve_equation E w = (None, setText (pystr ''Please enter an equation.'') w)"
    by (rule solve_equation_blank)
  have "strip (equation_input (w\<lparr>equation_input := []\<rparr>)) = []"
    by (simp add: strip_Nil)
  then have 2: "solve_equation E (w\<lparr>equation_input := []\<rparr>) =
      (None, setText (pystr ''Please enter an equation.'') (w\<lparr>equation_input := []\<rparr>))"
    by (rule solve_equation_blank)
  show ?thesis
    unfolding 1 2 by simp
qed

theorem C10_whitespace_input_witness:
  "solution_output (snd (solve_equation sample_engine (window_with ''Differentiation'' [32, 9, 160, 12288, 32]))) =
     pystr ''Please enter an equation.'' \<and>
   calls (snd (solve_equation sample_engine (window_with ''Differentiation'' [32, 9, 160, 12288, 32]))) = []"
proof -
  have "\<forall>c\<in>set (equation_input (window_with ''Differentiation'' [32, 9, 160, 12288, 32])). py_isspace c"
    by (simp add: window_with_def py_isspace_def)
  from C10_whitespace_input [OF this, of sample_engine] show ?thesis
    by (simp add: window_with_def)
qed

section \<open>Algebraic Equation mode\<close>

text \<open>
  Claim C3, as the code has it.  In Algebraic Equation mode, for every non-empty input that
  the engine parses, whose roots with respect to x the engine returns, and whose plot raises
  no exception other than a type error, the dispatcher requests the roots of the parsed
  expression and the display text is the header \<^verbatim>\<open>Solutions:\<close> and a newline, followed, for
  each root in the engine's order, by \<^verbatim>\<open>x<i> = <root>\<close> and five spaces, \<open>i\<close> counting
  from 1 (the five spaces follow the last root too).
\<close>

theorem C3_algebraic:
  assumes "equation_type_combo w = pystr ''Algebraic Equation''"
    and "strip (equation_input w) = t" and "t \<noteq> []"
    and "sp_sympify E t = Inr expr"
    and "sp_solve E expr = Inr solutions"
    and "fst (plot_graph E expr w) = None"
  shows "fst (solve_equation E w) = None \<and>
         solution_output (snd (solve_equation E w)) =
           pystr ''Solutions:'' @ [10] @
           concat (map (\<lambda>(i, sol). pystr ''x'' @ str_nat (i + 1) @ pystr '' = '' @ py_str E sol @ pystr ''     '')
                     (enumerate 0 solutions)) \<and>
         Sp_solve expr \<in> set (new_calls w (snd (solve_equation E w)))"
proof -
  let ?w1 = "log_call (Sp_sympify t) (log_call Sp_Symbol w)"
  have branch: "solve_branch E (equation_type_combo w) t expr ?w1 =
      (Inr (format_step_solution E solutions), snd (plot_graph E expr (log_call (Sp_solve expr) ?w1)))"
    unfolding assms(1) using assms(5,6) by (rule solve_branch_algebraic)
  note r = solve_equation_plotted [OF assms(2,3,4) branch]
  show ?thesis
    by (simp add: r(1) r(2) r(3) [where ?w0.0 = w] format_step_solution_concat)
qed

theorem C3_algebraic_witness:
  "solution_output (snd (solve_equation sample_engine (window_with ''Algebraic Equation'' (pystr ''x**2 - 4'')))) =
     pystr ''Solutions:'' @ [10] @ pystr ''x1 = -2     x2 = 2     '' \<and>
   Sp_solve (pystr ''x**2 - 4'')
     \<in> set (new_calls (window_with ''Algebraic Equation'' (pystr ''x**2 - 4''))
              (snd (solve_equation sample_engine (window_with ''Algebraic Equation'' (pystr ''x**2 - 4'')))))"
proof -
  let ?w = "window_with ''Algebraic Equation'' (pystr ''x**2 - 4'')"
  have 1: "equation_type_combo ?w = pystr ''Algebraic Equation''"
    by (simp add: window_with_def)
  have 2: "strip (equation_input ?w) = pystr ''x**2 - 4''"
    by (simp add: window_with_def string_simps)
  have 3: "pystr ''x**2 - 4'' \<noteq> []"
    by (simp add: pystr_def)
  have 4: "sp_sympify sample_engine (pystr ''x**2 - 4'') = Inr (pystr ''x**2 - 4'')"
    by (simp add: sample_simps string_simps)
  have 5: "sp_solve sample_engine (pystr ''x**2 - 4'') = Inr [pystr ''-2'', pystr ''2'']"
    by (simp add: sample_simps string_simps)
  have 6: "fst (plot_graph sample_engine (pystr ''x**2 - 4'') ?w) = None"
    by (simp add: plot_graph_fst plot_try_def sample_simps string_simps)
  from C3_algebraic [OF 1 2 3 4 5 6] show ?thesis
    by (simp add: sample_engine_def pystr_def ch_def enumerate_eq_zip)
qed

text \<open>
  Claim C3 as stated fails: for \<^verbatim>\<open>x**2 - 4\<close> with the roots \<open>-2\<close> and \<open>2\<close> the display
  is not the bare list \<^verbatim>\<open>x1 = -2     x2 = 2\<close>, nor its reverse: it carries the header and
  the trailing separator.
\<close>

theorem C3_bare_list_counterexample:
  "sp_solve sample_engine (pystr ''x**2 - 4'') = Inr [pystr ''-2'', pystr ''2''] \<and>
   solution_output (snd (solve_equation sample_engine (window_with ''Algebraic Equation'' (pystr ''x**2 - 4'')))) =
     pystr ''Solutions:'' @ [10] @ pystr ''x1 = -2     x2 = 2     '' \<and>
   solution_output (snd (solve_equation sample_engine (window_with ''Algebraic Equation'' (pystr ''x**2 - 4'')))) \<noteq>
     pystr ''x1 = -2     x2 = 2'' \<and>
   solution_output (snd (solve_equation sample_engine (window_with ''Algebraic Equation'' (pystr ''x**2 - 4'')))) \<noteq>
     pystr ''x1 = 2     x2 = -2''"
  by (simp add: dispatcher_simps sample_simps string_simps)


section \<open>Differentiation mode\<close>

text \<open>
  Claim C6, as the code has it.  In Differentiation mode, for every non-empty input that the
  engine parses, whose derivative with respect to x the engine returns, and whose plot raises
  no exception other than a type error, the display text is \<^verbatim>\<open>f'(x) = <derivative>\<close>, the
  derivative is requested for the parsed expression, and the expression compiled for the
  plot is the parsed one and no other (so not the derivative).
\<close>

theorem C6_differentiation:
  assumes "equation_type_combo w = pystr ''Differentiation''"
    and "strip (equation_input w) = t" and "t \<noteq> []"
    and "sp_sympify E t = Inr expr"
    and "sp_diff E expr = Inr derivative"
    and "fst (plot_graph E expr w) = None"
  shows "fst (solve_equation E w) = None \<and>
         solution_output (snd (solve_equation E w)) = pystr ''f'(x) = '' @ py_str E derivative \<and>
         Sp_diff expr \<in> set (new_calls w (snd (solve_equation E w))) \<and>
         (\<forall>e. Sp_lambdify e \<in> set (new_calls w (snd (solve_equation E w))) \<longleftrightarrow> e = expr)"
proof -
  let ?w1 = "log_call (Sp_sympify t) (log_call Sp_Symbol w)"
  have branch: "solve_branch E (equation_type_combo w) t expr ?w1 =
      (Inr (pystr ''f'(x) = '' @ py_str E derivative), snd (plot_graph E expr (log_call (Sp_diff expr) ?w1)))"
    unfolding assms(1) using assms(5,6) by (rule solve_branch_differentiation)
  note r = solve_equation_plotted [OF assms(2,3,4) branch]
  have "\<forall>e. Sp_lambdify e \<in> set (new_calls w (snd (solve_equation E w))) \<longleftrightarrow> e = expr"
    by (auto simp add: r(3) [where ?w0.0 = w] plot_graph_lambdify_events)
  then show ?thesis
    by (simp add: r(1) r(2) r(3) [where ?w0.0 = w])
qed

theorem C6_differentiation_witness:
  "solution_output (snd (solve_equation sample_engine (window_with ''Differentiation'' (pystr ''x**2'')))) =
     pystr ''f'(x) = 2*x'' \<and>
   Sp_lambdify (pystr ''x**2'')
     \<in> set (new_calls (window_with ''Differentiation'' (pystr ''x**2''))
              (snd (solve_equation sample_engine (window_with ''Differentiation'' (pystr ''x**2''))))) \<and>
   Sp_lambdify (pystr ''2*x'')
     \<notin> set (new_calls (window_with ''Differentiation'' (pystr ''x**2''))
              (snd (solve_equation sample_engine (window_with ''Differentiation'' (pystr ''x**2'')))))"
proof -
  let ?w = "window_with ''Differentiation'' (pystr ''x**2'')"
  have 1: "equation_type_combo ?w = pystr ''Differentiation''"
    by (simp add: window_with_def)
  have 2: "strip (equation_input ?w) = pystr ''x**2''"
    by (simp add: window_with_def string_simps)
  have 3: "pystr ''x**2'' \<noteq> []"
    by (simp add: pystr_def)
  have 4: "sp_sympify sample_engine (pystr ''x**2'') = Inr (pystr ''x**2'')"
    by (simp add: sample_simps string_simps)
  have 5: "sp_diff sample_engine (pystr ''x**2'') = Inr (pystr ''2*x'')"
    by (simp add: sample_simps string_simps)
  have 6: "fst (plot_graph sample_engine (pystr ''x**2'') ?w) = None"
    by (simp add: plot_graph_fst plot_try_def sample_simps string_simps)
  have 7: "pystr ''2*x'' \<noteq> pystr ''x**2''"
    by (simp add: pystr_def)
  from C6_differentiation [OF 1 2 3 4 5 6] 7 show ?thesis
    by (simp add: sample_engine_def pystr_def)
qed

text \<open>
  Claim C6 as stated fails for a parsable input whose plot raises another exception: the
  constant \<^verbatim>\<open>5\<close> parses and has the derivative \<open>0\<close>, the compiled function returns a
  scalar, drawing it raises a \<^verbatim>\<open>ValueError\<close>, and the display is that error, not
  \<^verbatim>\<open>f'(x) = 0\<close>.
\<close>

theorem C6_constant_counterexample:
  "sp_sympify sample_engine (strip (pystr ''5'')) = Inr (pystr ''5'') \<and>
   sp_diff sample_engine (pystr ''5'') = Inr (pystr ''0'') \<and>
   solution_output (snd (solve_equation sample_engine (window_with ''Differentiation'' (pystr ''5'')))) =
     pystr ''Error: x and y must have same first dimension'' \<and>
   solution_output (snd (solve_equation sample_engine (window_with ''Differentiation'' (pystr ''5'')))) \<noteq>
     pystr ''f'(x) = '' @ py_str sample_engine (pystr ''0'')"
  by (simp add: dispatcher_simps sample_simps string_simps)


section \<open>Integration mode\<close>

text \<open>
  Claim C4.  In Integration mode, for every non-empty input that the engine parses, whose
  integral the engine returns and whose plot raises no exception other than a type error,
  the display text is the integral between the prefix of the source and \<^verbatim>\<open> + C\<close>.  The
  prefix of the source begins with the three characters U+00E2, U+02C6, U+00AB (the bytes of
  the integral sign read in a one-byte encoding), so the display is never the text with the
  integral sign U+222B that the claim gives.
\<close>

theorem C4_integration:
  assumes "equation_type_combo w = pystr ''Integration''"
    and "strip (equation_input w) = t" and "t \<noteq> []"
    and "sp_sympify E t = Inr expr"
    and "sp_integrate E expr = Inr integral"
    and "fst (plot_graph E expr w) = None"
  shows "fst (solve_equation E w) = None \<and>
         solution_output (snd (solve_equation E w)) =
           [0xE2, 0x2C6, 0xAB] @ pystr ''f(x) dx = '' @ py_str E integral @ pystr '' + C'' \<and>
         solution_output (snd (solve_equation E w)) \<noteq>
           [0x222B] @ pystr ''f(x) dx = '' @ py_str E integral @ pystr '' + C''"
proof -
  let ?w1 = "log_call (Sp_sympify t) (log_call Sp_Symbol w)"
  have branch: "solve_branch E (equation_type_combo w) t expr ?w1 =
      (Inr (integral_prefix @ py_str E integral @ pystr '' + C''),
       snd (plot_graph E expr (log_call (Sp_integrate expr) ?w1)))"
    unfolding assms(1) using assms(5,6) by (rule solve_branch_integration)
  note r = solve_equation_plotted [OF assms(2,3,4) branch]
  show ?thesis
    by (simp add: r(1) r(2) integral_prefix_def)
qed

theorem C4_integration_witness:
  "solution_output (snd (solve_equation sample_engine (window_with ''Integration'' (pystr ''2*x'')))) =
     [0xE2, 0x2C6, 0xAB] @ pystr ''f(x) dx = x**2 + C'' \<and>
   solution_output (snd (solve_equation sample_engine (window_with ''Integration'' (pystr ''2*x'')))) \<noteq>
     [0x222B] @ pystr ''f(x) dx = x**2 + C''"
proof -
  let ?w = "window_with ''Integration'' (pystr ''2*x'')"
  have 1: "equation_type_combo ?w = pystr ''Integration''"
    by (simp add: window_with_def)
  have 2: "strip (equation_input ?w) = pystr ''2*x''"
    by (simp add: window_with_def string_simps)
  have 3: "pystr ''2*x'' \<noteq> []"
    by (simp add: pystr_def)
  have 4: "sp_sympify sample_engine (pystr ''2*x'') = Inr (pystr ''2*x'')"
    by (simp add: sample_simps string_simps)
  have 5: "sp_integrate sample_engine (pystr ''2*x'') = Inr (pystr ''x**2'')"
    by (simp add: sample_simps string_simps)
  have 6: "fst (plot_graph sample_engine (pystr ''2*x'') ?w) = None"
    by (simp add: plot_graph_fst plot_try_def sample_simps string_simps)
  from C4_integration [OF 1 2 3 4 5 6] show ?thesis
    by (simp add: sample_engine_def pystr_def)
qed

section \<open>A type error while plotting\<close>

text \<open>
  Claim C8.  When compiling, evaluating or drawing the expression raises a type error,
  \<^verbatim>\<open>plot_graph\<close> returns normally, puts its plotting message in the output area and does
  not draw the canvas.  The dispatcher then sets the output area to the solve result, so the
  final display is the solve result alone: the plotting message has been overwritten and is
  not shown with it.
\<close>

theorem C8_plot_message_overwritten:
  assumes "equation_type_combo w = pystr ''Algebraic Equation''"
    and "strip (equation_input w) = t" and "t \<noteq> []"
    and "sp_sympify E t = Inr expr"
    and "sp_solve E expr = Inr solutions"
    and "plot_try E expr = Some (TypeError m)"
  shows "fst (plot_graph E expr w') = None \<and>
         solution_output (snd (plot_graph E expr w')) = plot_message \<and>
         Canvas_draw \<notin> set (new_calls w' (snd (plot_graph E expr w'))) \<and>
         fst (solve_equation E w) = None \<and>
         solution_output (snd (solve_equation E w)) = format_step_solution E solutions \<and>
         solution_output (snd (solve_equation E w)) \<noteq> plot_message"
proof -
  let ?w1 = "log_call (Sp_sympify t) (log_call Sp_Symbol w)"
  note p = plot_graph_type_error [OF assms(6)]
  have branch: "solve_branch E (equation_type_combo w) t expr ?w1 =
      (Inr (format_step_solution E solutions), snd (plot_graph E expr (log_call (Sp_solve expr) ?w1)))"
    unfolding assms(1) using assms(5) p(1) [of w] by (rule solve_branch_algebraic)
  note r = solve_equation_plotted [OF assms(2,3,4) branch]
  show ?thesis
    by (simp add: p r(1) r(2) format_step_solution_not_plot_message)
qed

theorem C8_plot_message_overwritten_witness:
  "solution_output (snd (plot_graph sample_engine (pystr ''x + y'') (window_with ''Algebraic Equation'' (pystr ''x + y'')))) =
     pystr ''Error: Unable to plot the function. Please enter a valid equation.'' \<and>
   solution_output (snd (solve_equation sample_engine (window_with ''Algebraic Equation'' (pystr ''x + y'')))) =
     pystr ''Solutions:'' @ [10] @ pystr ''x1 = -y     ''"
proof -
  let ?w = "window_with ''Algebraic Equation'' (pystr ''x + y'')"
  have 1: "equation_type_combo ?w = pystr ''Algebraic Equation''"
    by (simp add: window_with_def)
  have 2: "strip (equation_input ?w) = pystr ''x + y''"
    by (simp add: window_with_def string_simps)
  have 3: "pystr ''x + y'' \<noteq> []"
    by (simp add: pystr_def)
  have 4: "sp_sympify sample_engine (pystr ''x + y'') = Inr (pystr ''x + y'')"
    by (simp add: sample_simps string_simps)
  have 5: "sp_solve sample_engine (pystr ''x + y'') = Inr [pystr ''-y'']"
    by (simp add: sample_simps string_simps)
  have 6: "plot_try sample_engine (pystr ''x + y'') =
      Some (TypeError (pystr ''Cannot convert expression to float''))"
    by (simp add: plot_try_def sample_simps string_simps)
  from C8_plot_message_overwritten [OF 1 2 3 4 5 6, of ?w] show ?thesis
    by (simp add: plot_message_def format_step_solution_concat sample_engine_def pystr_def ch_def enumerate_eq_zip)
qed

section \<open>System of Equations mode\<close>

text \<open>
  Claim C2.  The dispatcher parses the whole input text before it looks at the mode.  When
  the parser rejects the text \<^verbatim>\<open>x + y = 5, x - y = 1\<close> with an \<^verbatim>\<open>Exception\<close> (a single
  \<^verbatim>\<open>=\<close> is not expression syntax), the display in System of Equations mode is \<^verbatim>\<open>Error: <message>\<close>, not
  \<^verbatim>\<open>x = 3.0     y = 2.0\<close>, and the only calls made are the creation of the symbol and the
  rejected parse: \<^verbatim>\<open>solve_system\<close> is not reached.
\<close>

theorem C2_system_example_rejected:
  assumes "equation_type_combo w = pystr ''System of Equations''"
    and "equation_input w = pystr ''x + y = 5, x - y = 1''"
    and "sp_sympify E (pystr ''x + y = 5, x - y = 1'') = Inl ex"
    and "is_Exception ex"
  shows "fst (solve_equation E w) = None \<and>
         solution_output (snd (solve_equation E w)) = pystr ''Error: '' @ exn_str ex \<and>
         solution_output (snd (solve_equation E w)) \<noteq> pystr ''x = 3.0     y = 2.0'' \<and>
         new_calls w (snd (solve_equation E w)) = [Sp_Symbol, Sp_sympify (pystr ''x + y = 5, x - y = 1'')]"
proof -
  have s: "strip (equation_input w) = pystr ''x + y = 5, x - y = 1''"
    by (simp add: assms(2) string_simps)
  have n: "pystr ''x + y = 5, x - y = 1'' \<noteq> []"
    by (simp add: pystr_def)
  note r = solve_equation_rejected [OF s n assms(3,4)]
  have "new_calls w (snd (solve_equation E w)) = [Sp_Symbol, Sp_sympify (pystr ''x + y = 5, x - y = 1'')]"
    by (rule new_calls_append) (simp add: r)
  moreover have "pystr ''Error: '' @ exn_str ex \<noteq> pystr ''x = 3.0     y = 2.0''"
    by (simp add: pystr_def ch_def)
  ultimately show ?thesis
    by (simp add: r)
qed

theorem C2_system_example_rejected_witness:
  "solution_output (snd (solve_equation sample_engine (window_with ''System of Equations'' (pystr ''x + y = 5, x - y = 1'')))) =
     pystr ''Error: could not parse'' \<and>
   solution_output (snd (solve_equation sample_engine (window_with ''System of Equations'' (pystr ''x + y = 5, x - y = 1'')))) \<noteq>
     pystr ''x = 3.0     y = 2.0''"
proof -
  let ?w = "window_with ''System of Equations'' (pystr ''x + y = 5, x - y = 1'')"
  have 1: "equation_type_combo ?w = pystr ''System of Equations''"
    by (simp add: window_with_def)
  have 2: "equation_input ?w = pystr ''x + y = 5, x - y = 1''"
    by (simp add: window_with_def)
  have 3: "sp_sympify sample_engine (pystr ''x + y = 5, x - y = 1'') =
      Inl (OtherException (pystr ''could not parse''))"
    by (simp add: sample_simps string_simps)
  have 4: "is_Exception (OtherException (pystr ''could not parse''))"
    by simp
  from C2_system_example_rejected [OF 1 2 3 4] show ?thesis
    by (simp add: pystr_def)
qed

text \<open>
  \<^verbatim>\<open>solve_system\<close> on its own does rewrite the equations and solve the example, and the
  dispatcher reaches it when the text has no \<^verbatim>\<open>=\<close>.
\<close>

lemma solve_system_alone_example:
  "fst (solve_system sample_engine (pystr ''x + y = 5, x - y = 1'') (window_with ''System of Equations'' [])) =
     Inr (pystr ''x = 3.00000000000000     y = 2.00000000000000'')"
  by (simp add: dispatcher_simps sample_simps string_simps)

lemma solve_equation_commas_only_example:
  "solution_output (snd (solve_equation sample_engine (window_with ''System of Equations'' (pystr ''x + y - 5, x - y - 1'')))) =
     pystr ''x = 3.00000000000000     y = 2.00000000000000''"
  by (simp add: dispatcher_simps sample_simps string_simps)

section \<open>Exceptions\<close>




section \<open>A system without solution\<close>

text \<open>
  Claim C7.  Whenever the linear solve, called with the parsed equations and the sorted
  variable names, returns the empty solution set, the text \<^verbatim>\<open>solve_system\<close> returns is
  exactly \<^verbatim>\<open>No solution found.\<close>; and in System of Equations mode, when the whole input text
  has been parsed, the dispatcher returns normally with exactly this text on display.
\<close>

theorem C7_no_solution:
  assumes "fst (parse_equations E (py_split (ch CHR '','') s) [] {} w0) = Inr (equations, variable_set)"
    and "sp_linsolve E equations (sorted_list_of_set variable_set) = Inr []"
  shows "fst (solve_system E s w') = Inr (pystr ''No solution found.'') \<and>
         (equation_type_combo w = pystr ''System of Equations'' \<and> strip (equation_input w) = s \<and>
          s \<noteq> [] \<and> sp_sympify E s = Inr expr \<longrightarrow>
          fst (solve_equation E w) = None \<and>
          solution_output (snd (solve_equation E w)) = pystr ''No solution found.'')"
proof -
  have r: "fst (solve_system E s w1) = Inr (pystr ''No solution found.'')" for w1
    using assms by (rule solve_system_no_solution)
  show ?thesis
    using r [of w'] solve_equation_system [of w s E expr w', OF _ _ _ _ r]
    by simp
qed

theorem C7_no_solution_witness:
  "fst (solve_system sample_engine (pystr ''x + y = 1, x + y = 2'') (window_with ''System of Equations'' [])) =
     Inr (pystr ''No solution found.'') \<and>
   fst (solve_equation sample_engine (window_with ''System of Equations'' (pystr ''x + y - 1, x + y - 2''))) = None \<and>
   solution_output (snd (solve_equation sample_engine
     (window_with ''System of Equations'' (pystr ''x + y - 1, x + y - 2'')))) = pystr ''No solution found.''"
proof -
  let ?blank = "window_with ''System of Equations'' []"
  let ?sys = "window_with ''System of Equations'' (pystr ''x + y - 1, x + y - 2'')"
  have p1: "fst (parse_equations sample_engine (py_split (ch CHR '','') (pystr ''x + y = 1, x + y = 2'')) [] {} ?blank) =
      Inr ([pystr ''x + y - 1'', pystr ''x + y - 2''], {pystr ''x'', pystr ''y''})"
    by (simp add: rewrite_equation_def log_call_def Let_def sample_simps string_simps insert_commute)
  have p2: "fst (parse_equations sample_engine (py_split (ch CHR '','') (pystr ''x + y - 1, x + y - 2'')) [] {} ?blank) =
      Inr ([pystr ''x + y - 1'', pystr ''x + y - 2''], {pystr ''x'', pystr ''y''})"
    by (simp add: rewrite_equation_def log_call_def Let_def sample_simps string_simps insert_commute)
  have l: "sp_linsolve sample_engine [pystr ''x + y - 1'', pystr ''x + y - 2'']
      (sorted_list_of_set {pystr ''x'', pystr ''y''}) = Inr []"
    by (simp add: sample_simps string_simps)
  have d: "equation_type_combo ?sys = pystr ''System of Equations'' \<and>
      strip (equation_input ?sys) = pystr ''x + y - 1, x + y - 2'' \<and>
      pystr ''x + y - 1, x + y - 2'' \<noteq> [] \<and>
      sp_sympify sample_engine (pystr ''x + y - 1, x + y - 2'') = Inr (pystr ''(x + y - 1, x + y - 2)'')"
    by (simp add: sample_simps string_simps)
  from C7_no_solution [OF p1 l, where ?w' = ?blank]
  have "fst (solve_system sample_engine (pystr ''x + y = 1, x + y = 2'') ?blank) = Inr (pystr ''No solution found.'')"
    by simp
  moreover from C7_no_solution [OF p2 l, where ?w = ?sys and ?expr = "pystr ''(x + y - 1, x + y - 2)''"] d
  have "fst (solve_equation sample_engine ?sys) = None \<and>
      solution_output (snd (solve_equation sample_engine ?sys)) = pystr ''No solution found.''"
    by simp
  ultimately show ?thesis
    by simp
qed

section \<open>The plot request\<close>

text \<open>
  Claim C9, as the code has it.  The sample points of a plot are the 400 doubles of
  \<^verbatim>\<open>np.linspace(-10, 10, 400)\<close>: the first is \<open>-10\<close>, the last is \<open>10\<close>, all lie in
  \<open>[-10, 10]\<close>, and they are evenly spaced up to rounding: the sample of index \<open>i\<close> is
  within \<^verbatim>\<open>1/2^47\<close> of \<open>-10 + 20 i / 399\<close>, and consecutive samples differ by \<open>20/399\<close>
  up to \<^verbatim>\<open>1/2^46\<close>.  Every call of \<^verbatim>\<open>plot_graph\<close> asks for exactly these samples and compiles the
  expression it is given and no other; it evaluates the compiled function exactly when
  compiling succeeded, and then on exactly this array.  In a run of the dispatcher every
  sampling is this one, every expression compiled for a plot is the parsed input text, and
  every evaluation is of its compiled function on the 400 samples.  In System of Equations
  mode the dispatcher makes no plot call at all.
\<close>

theorem C9_plot_sampling:
  "length (linspace (- 10) 10 400) = 400 \<and>
   hd (linspace (- 10) 10 400) = - 10 \<and>
   last (linspace (- 10) 10 400) = 10 \<and>
   (\<forall>i<400. - 10 \<le> linspace (- 10) 10 400 ! i \<and> linspace (- 10) 10 400 ! i \<le> 10) \<and>
   (\<forall>i<400. \<bar>linspace (- 10) 10 400 ! i - (- 10 + of_nat i * (20 / 399))\<bar> \<le> 1 / 2 ^ 47) \<and>
   (\<forall>i<399. \<bar>(linspace (- 10) 10 400 ! Suc i - linspace (- 10) 10 400 ! i) - 20 / 399\<bar> \<le> 1 / 2 ^ 46) \<and>
   Np_linspace (- 10) 10 400 \<in> set (new_calls w' (snd (plot_graph E expr w'))) \<and>
   (\<forall>e. Sp_lambdify e \<in> set (new_calls w' (snd (plot_graph E expr w'))) \<longleftrightarrow> e = expr) \<and>
   (\<forall>f xs. Call_lambdified f xs \<in> set (new_calls w' (snd (plot_graph E expr w'))) \<longleftrightarrow>
      sp_lambdify E expr = Inr f \<and> xs = linspace (- 10) 10 400) \<and>
   (\<forall>a b n. Np_linspace a b n \<in> set (new_calls w (snd (solve_equation E w))) \<longrightarrow>
      a = - 10 \<and> b = 10 \<and> n = 400) \<and>
   (\<forall>f xs. Call_lambdified f xs \<in> set (new_calls w (snd (solve_equation E w))) \<longrightarrow>
      xs = linspace (- 10) 10 400 \<and>
      (\<exists>e. sp_sympify E (strip (equation_input w)) = Inr e \<and> sp_lambdify E e = Inr f)) \<and>
   (\<forall>e. Sp_lambdify e \<in> set (new_calls w (snd (solve_equation E w))) \<longrightarrow>
      sp_sympify E (strip (equation_input w)) = Inr e) \<and>
   (equation_type_combo w = pystr ''System of Equations'' \<longrightarrow>
      filter is_plot_event (new_calls w (snd (solve_equation E w))) = [])"
proof -
  from solve_equation_calls [of E w]
  obtain evs where c: "calls (snd (solve_equation E w)) = calls w @ evs"
    and p: "\<forall>ev\<in>set evs. is_plot_event ev \<longrightarrow>
              (\<exists>e. sp_sympify E (strip (equation_input w)) = Inr e \<and>
                   ev \<in> set (new_calls w (snd (plot_graph E e w))))"
    and n: "equation_type_combo w = pystr ''System of Equations'' \<longrightarrow> (\<forall>ev\<in>set evs. \<not> is_plot_event ev)"
    by blast
  have nc: "new_calls w (snd (solve_equation E w)) = evs"
    using c by (rule new_calls_append)
  have samples: "\<forall>a b n. Np_linspace a b n \<in> set evs \<longrightarrow> a = - 10 \<and> b = 10 \<and> n = 400"
  proof (intro allI impI)
    fix a b n
    assume "Np_linspace a b n \<in> set evs"
    with p obtain e where "Np_linspace a b n \<in> set (new_calls w (snd (plot_graph E e w)))"
      by fastforce
    then show "a = - 10 \<and> b = 10 \<and> n = 400"
      by (simp add: plot_graph_linspace_events)
  qed
  have evaluated: "\<forall>f xs. Call_lambdified f xs \<in> set evs \<longrightarrow>
      xs = linspace (- 10) 10 400 \<and>
      (\<exists>e. sp_sympify E (strip (equation_input w)) = Inr e \<and> sp_lambdify E e = Inr f)"
  proof (intro allI impI)
    fix f xs
    assume "Call_lambdified f xs \<in> set evs"
    with p obtain e where e: "sp_sympify E (strip (equation_input w)) = Inr e"
      and "Call_lambdified f xs \<in> set (new_calls w (snd (plot_graph E e w)))"
      by fastforce
    then have "sp_lambdify E e = Inr f \<and> xs = linspace (- 10) 10 400"
      by (simp add: plot_graph_call_events)
    with e show "xs = linspace (- 10) 10 400 \<and>
      (\<exists>e. sp_sympify E (strip (equation_input w)) = Inr e \<and> sp_lambdify E e = Inr f)"
      by blast
  qed
  have compiled: "\<forall>e. Sp_lambdify e \<in> set evs \<longrightarrow> sp_sympify E (strip (equation_input w)) = Inr e"
  proof (intro allI impI)
    fix e
    assume "Sp_lambdify e \<in> set evs"
    with p obtain e' where e': "sp_sympify E (strip (equation_input w)) = Inr e'"
      and "Sp_lambdify e \<in> set (new_calls w (snd (plot_graph E e' w)))"
      by fastforce
    then have "e = e'"
      by (simp add: plot_graph_lambdify_events)
    with e' show "sp_sympify E (strip (equation_input w)) = Inr e"
      by simp
  qed
  have system: "equation_type_combo w = pystr ''System of Equations'' \<longrightarrow> filter is_plot_event evs = []"
    using n by (simp add: filter_empty_conv)
  have request: "Np_linspace (- 10) 10 400 \<in> set (new_calls w' (snd (plot_graph E expr w')))"
    by (simp add: plot_graph_linspace_events)
  have original: "\<forall>e. Sp_lambdify e \<in> set (new_calls w' (snd (plot_graph E expr w'))) \<longleftrightarrow> e = expr"
    by (simp add: plot_graph_lambdify_events)
  have applied: "\<forall>f xs. Call_lambdified f xs \<in> set (new_calls w' (snd (plot_graph E expr w'))) \<longleftrightarrow>
      sp_lambdify E expr = Inr f \<and> xs = linspace (- 10) 10 400"
    by (simp add: plot_graph_call_events)
  have nonempty: "linspace (- 10) 10 400 \<noteq> []"
    using linspace_length [of "- 10" 10 400] by auto
  have first: "hd (linspace (- 10) 10 400) = - 10"
    using nonempty by (simp add: hd_conv_nth linspace_400_first)
  have final: "last (linspace (- 10) 10 400) = 10"
    using nonempty linspace_last_nth [of 400 "- 10" 10] by (simp add: last_conv_nth linspace_length)
  have grid: "length (linspace (- 10) 10 400) = 400 \<and>
      hd (linspace (- 10) 10 400) = - 10 \<and>
      last (linspace (- 10) 10 400) = 10 \<and>
      (\<forall>i<400. - 10 \<le> linspace (- 10) 10 400 ! i \<and> linspace (- 10) 10 400 ! i \<le> 10) \<and>
      (\<forall>i<400. \<bar>linspace (- 10) 10 400 ! i - (- 10 + of_nat i * (20 / 399))\<bar> \<le> 1 / 2 ^ 47) \<and>
      (\<forall>i<399. \<bar>(linspace (- 10) 10 400 ! Suc i - linspace (- 10) 10 400 ! i) - 20 / 399\<bar> \<le> 1 / 2 ^ 46)"
    using linspace_400_range linspace_400_error linspace_400_step first final
    by (simp add: linspace_length)
  from grid request original applied samples evaluated compiled system show ?thesis
    unfolding nc by blast
qed

theorem C9_plot_sampling_witness:
  "length (linspace (- 10) 10 400) = 400 \<and>
   \<bar>linspace (- 10) 10 400 ! 1 - (- 10 + 1 * (20 / 399))\<bar> \<le> 1 / 2 ^ 47 \<and>
   \<bar>(linspace (- 10) 10 400 ! 1 - linspace (- 10) 10 400 ! 0) - 20 / 399\<bar> \<le> 1 / 2 ^ 46 \<and>
   Call_lambdified (pystr ''lambda x: x**2'') (linspace (- 10) 10 400)
     \<in> set (new_calls (window_with ''Differentiation'' (pystr ''x**2''))
              (snd (plot_graph sample_engine (pystr ''x**2'') (window_with ''Differentiation'' (pystr ''x**2''))))) \<and>
   sp_sympify sample_engine (strip (equation_input (window_with ''Differentiation'' (pystr ''x**2'')))) =
     Inr (pystr ''x**2'') \<and>
   filter is_plot_event
     (new_calls (window_with ''System of Equations'' (pystr ''x + y - 5, x - y - 1''))
        (snd (solve_equation sample_engine (window_with ''System of Equations'' (pystr ''x + y - 5, x - y - 1''))))) = []"
proof -
  let ?wd = "window_with ''Differentiation'' (pystr ''x**2'')"
  let ?ws = "window_with ''System of Equations'' (pystr ''x + y - 5, x - y - 1'')"
  have l: "sp_lambdify sample_engine (pystr ''x**2'') = Inr (pystr ''lambda x: x**2'')"
    by (simp add: sample_engine_def pystr_def)
  have m: "Sp_lambdify (pystr ''x**2'') \<in> set (new_calls ?wd (snd (solve_equation sample_engine ?wd)))"
    by (simp add: dispatcher_simps sample_simps string_simps)
  have t: "equation_type_combo ?ws = pystr ''System of Equations''"
    by (simp add: window_with_def)
  note d = C9_plot_sampling [where w' = ?wd and E = sample_engine and expr = "pystr ''x**2''" and w = ?wd]
  note s = C9_plot_sampling [where w' = ?ws and E = sample_engine and expr = "pystr ''x**2''" and w = ?ws]
  from d have "length (linspace (- 10) 10 400) = 400"
    by blast
  moreover from d have "\<forall>i<400. \<bar>linspace (- 10) 10 400 ! i - (- 10 + of_nat i * (20 / 399))\<bar> \<le> 1 / 2 ^ 47"
    by blast
  then have "\<bar>linspace (- 10) 10 400 ! 1 - (- 10 + 1 * (20 / 399))\<bar> \<le> 1 / 2 ^ 47"
    by (metis of_nat_1 one_less_numeral_iff semiring_norm(76))
  moreover from d have "\<forall>i<399. \<bar>(linspace (- 10) 10 400 ! Suc i - linspace (- 10) 10 400 ! i) - 20 / 399\<bar> \<le> 1 / 2 ^ 46"
    by blast
  then have "\<bar>(linspace (- 10) 10 400 ! 1 - linspace (- 10) 10 400 ! 0) - 20 / 399\<bar> \<le> 1 / 2 ^ 46"
    by (metis One_nat_def zero_less_numeral)
  moreover from d l have "Call_lambdified (pystr ''lambda x: x**2'') (linspace (- 10) 10 400)
     \<in> set (new_calls ?wd (snd (plot_graph sample_engine (pystr ''x**2'') ?wd)))"
    by blast
  moreover from d m have "sp_sympify sample_engine (strip (equation_input ?wd)) = Inr (pystr ''x**2'')"
    by blast
  moreover from s t have "filter is_plot_event (new_calls ?ws (snd (solve_equation sample_engine ?ws))) = []"
    by blast
  ultimately show ?thesis
    by blast
qed

text \<open>
  Claim C9 as stated fails twice.  The doubles are not evenly spaced: the first two
  differences of consecutive samples are not equal.  And a plot request whose expression
  does not compile takes its samples and evaluates nothing.
\<close>

theorem C9_uneven_unevaluated_counterexample:
  "linspace (- 10) 10 400 ! 1 - linspace (- 10) 10 400 ! 0 \<noteq>
     linspace (- 10) 10 400 ! 2 - linspace (- 10) 10 400 ! 1 \<and>
   new_calls (window_with ''Differentiation'' (pystr ''x**2''))
     (snd (plot_graph no_compile_engine (pystr ''x**2'') (window_with ''Differentiation'' (pystr ''x**2'')))) =
     [Ax_clear, Np_linspace (- 10) 10 400, Sp_Symbol, Sp_lambdify (pystr ''x**2'')]"
proof -
  have "sp_lambdify no_compile_engine (pystr ''x**2'') =
      Inl (OtherException (pystr ''cannot print the expression''))"
    by (simp add: no_compile_engine_def)
  then have "new_calls (window_with ''Differentiation'' (pystr ''x**2''))
     (snd (plot_graph no_compile_engine (pystr ''x**2'') (window_with ''Differentiation'' (pystr ''x**2'')))) =
     [Ax_clear, Np_linspace (- 10) 10 400, Sp_Symbol, Sp_lambdify (pystr ''x**2'')]"
    by (simp add: plot_graph_new_calls)
  with linspace_400_uneven show ?thesis
    by simp
qed

end
